theory Spec2Isabelle
  imports Main
begin

section \<open>Values shared by the services\<close>

text \<open>
  The exceptions that the modelled code paths can raise. A raised exception is the
  \<open>Inl\<close> side of a sum; it carries no message.
\<close>

datatype error = ValueError | OverflowError | IndexError

text \<open>
  JSON values as they occur in the request and response bodies: strings and null.
  A Python dict literal is an association list in the order of the literal.
\<close>

datatype jval = JNull | JStr string

type_synonym dict = "(string \<times> jval) list"

fun jopt :: "string option \<Rightarrow> jval" where
  "jopt None = JNull"
| "jopt (Some s) = JStr s"

section \<open>The standard-library operations the scheduler uses\<close>

subsection \<open>Naive local datetimes\<close>

text \<open>
  A naive \<open>datetime\<close>: the date as its proleptic Gregorian ordinal (\<open>toordinal()\<close>,
  1 for 0001-01-01, \<open>MAXORDINAL\<close> for 9999-12-31) and the four time fields.
\<close>

record datetime =
  dt_day :: int
  dt_hour :: int
  dt_minute :: int
  dt_second :: int
  dt_microsecond :: int

definition MAXORDINAL :: int where
  "MAXORDINAL = 3652059"

definition valid_datetime :: "datetime \<Rightarrow> bool" where
  "valid_datetime d \<longleftrightarrow>
     1 \<le> dt_day d \<and> dt_day d \<le> MAXORDINAL \<and>
     0 \<le> dt_hour d \<and> dt_hour d \<le> 23 \<and>
     0 \<le> dt_minute d \<and> dt_minute d \<le> 59 \<and>
     0 \<le> dt_second d \<and> dt_second d \<le> 59 \<and>
     0 \<le> dt_microsecond d \<and> dt_microsecond d \<le> 999999"

text \<open>
  \<open>d.replace(hour=h, minute=m, second=s, microsecond=us)\<close>: the date is kept. Each
  argument is first converted to a C \<open>int\<close>, which raises \<open>OverflowError\<close> outside 32
  bits; then the time fields are checked, and a field out of range raises \<open>ValueError\<close>.
\<close>

definition c_int :: "int \<Rightarrow> bool" where
  "c_int n \<longleftrightarrow> - 2147483648 \<le> n \<and> n \<le> 2147483647"

definition dt_replace :: "datetime \<Rightarrow> int \<Rightarrow> int \<Rightarrow> int \<Rightarrow> int \<Rightarrow> error + datetime" where
  "dt_replace d h m s us =
     (if \<not> (c_int h \<and> c_int m \<and> c_int s \<and> c_int us) then Inl OverflowError
      else if 0 \<le> h \<and> h \<le> 23 \<and> 0 \<le> m \<and> m \<le> 59 \<and> 0 \<le> s \<and> s \<le> 59 \<and> 0 \<le> us \<and> us \<le> 999999
      then Inr (d\<lparr>dt_hour := h, dt_minute := m, dt_second := s, dt_microsecond := us\<rparr>)
      else Inl ValueError)"

text \<open>
  \<open>a < b\<close> on datetimes compares the fields lexicographically, the date first.
\<close>

definition dt_less :: "datetime \<Rightarrow> datetime \<Rightarrow> bool" where
  "dt_less a b \<longleftrightarrow>
     dt_day a < dt_day b \<or> (dt_day a = dt_day b \<and>
      (dt_hour a < dt_hour b \<or> (dt_hour a = dt_hour b \<and>
       (dt_minute a < dt_minute b \<or> (dt_minute a = dt_minute b \<and>
        (dt_second a < dt_second b \<or> (dt_second a = dt_second b \<and>
          dt_microsecond a < dt_microsecond b)))))))"

text \<open>
  The scheduler builds two kinds of \<open>timedelta\<close>, \<open>timedelta(days=1)\<close> and
  \<open>timedelta(minutes=jitter)\<close>; both are whole minutes, so a timedelta is its
  number of minutes.
\<close>

type_synonym timedelta = int

definition timedelta_days :: "int \<Rightarrow> timedelta" where
  "timedelta_days n = n * 1440"

definition timedelta_minutes :: "int \<Rightarrow> timedelta" where
  "timedelta_minutes n = n"

text \<open>
  \<open>d + td\<close>: the minutes of the day are added up and carried into the date; seconds and
  microseconds are untouched by a delta of whole minutes. A date outside
  \<open>1 .. MAXORDINAL\<close> raises \<open>OverflowError\<close>.
\<close>

definition dt_add :: "datetime \<Rightarrow> timedelta \<Rightarrow> error + datetime" where
  "dt_add d td =
     (let total = dt_hour d * 60 + dt_minute d + td;
          day = dt_day d + total div 1440;
          rem = total mod 1440
      in if 0 < day \<and> day \<le> MAXORDINAL
         then Inr (d\<lparr>dt_day := day, dt_hour := rem div 60, dt_minute := rem mod 60\<rparr>)
         else Inl OverflowError)"

text \<open>
  The position of a datetime on the time line, in microseconds; \<open>(a - b).total_seconds()\<close>
  is \<open>(dt_micros a - dt_micros b) / 10^6\<close>, so its sign is the sign of the difference.
\<close>

definition dt_micros :: "datetime \<Rightarrow> int" where
  "dt_micros d =
     (((dt_day d * 24 + dt_hour d) * 60 + dt_minute d) * 60 + dt_second d) * 1000000
       + dt_microsecond d"

subsection \<open>Random draws\<close>

text \<open>
  The generator is an input: each call site receives a raw draw \<open>r\<close>, an arbitrary
  natural number, and \<open>randbelow n\<close> reduces it to the range \<open>0 ..< n\<close>.
  \<open>random.randint(a, b)\<close> is \<open>a + randbelow(b - a + 1)\<close> and raises \<open>ValueError\<close> on an
  empty range; \<open>random.choice(xs)\<close> is \<open>xs[randbelow(len(xs))]\<close> and raises
  \<open>IndexError\<close> on an empty list.
\<close>

definition randbelow :: "nat \<Rightarrow> nat \<Rightarrow> nat" where
  "randbelow n r = r mod n"

definition randint :: "int \<Rightarrow> int \<Rightarrow> nat \<Rightarrow> error + int" where
  "randint a b r =
     (if b - a + 1 \<le> 0 then Inl ValueError
      else Inr (a + int (randbelow (nat (b - a + 1)) r)))"

definition choice :: "'a list \<Rightarrow> nat \<Rightarrow> error + 'a" where
  "choice xs r = (if xs = [] then Inl IndexError else Inr (xs ! randbelow (length xs) r))"

subsection \<open>Strings: \<open>split\<close> and \<open>int\<close>\<close>

text \<open>
  A character is a code point below 256; a string with a code point beyond that is
  outside the model. \<open>s.split(sep)\<close> for a one-character separator cuts at every
  occurrence and always returns at least one part.
\<close>

fun split_on :: "char \<Rightarrow> string \<Rightarrow> string list" where
  "split_on sep [] = [[]]"
| "split_on sep (c # cs) =
     (if c = sep then [] # split_on sep cs
      else (case split_on sep cs of
              [] \<Rightarrow> [[c]]
            | p # ps \<Rightarrow> (c # p) # ps))"

text \<open>
  The white space \<open>int\<close> strips: the blank, the ASCII controls 9 to 13, and of the
  code points from 128 on the next-line control U+0085 and the no-break space U+00A0.
\<close>

definition is_space :: "char \<Rightarrow> bool" where
  "is_space c \<longleftrightarrow>
     c = CHR '' '' \<or> (9 \<le> (of_char c :: nat) \<and> (of_char c :: nat) \<le> 13) \<or>
     (of_char c :: nat) = 133 \<or> (of_char c :: nat) = 160"

definition is_digit :: "char \<Rightarrow> bool" where
  "is_digit c \<longleftrightarrow> 48 \<le> (of_char c :: nat) \<and> (of_char c :: nat) \<le> 57"

definition digit_val :: "char \<Rightarrow> int" where
  "digit_val c = int (of_char c) - 48"

text \<open>
  The digits of a decimal literal, read left to right with the value so far. Between two
  digits one underscore is allowed; \<open>prev\<close> says whether the previous character was a
  digit. The literal ends at the end of the string or at trailing white space.
\<close>

fun int_digits :: "int \<Rightarrow> bool \<Rightarrow> string \<Rightarrow> int option" where
  "int_digits acc prev [] = (if prev then Some acc else None)"
| "int_digits acc prev (c # cs) =
     (if is_digit c then int_digits (acc * 10 + digit_val c) True cs
      else if c = CHR ''_'' then (if prev then int_digits acc False cs else None)
      else if is_space c then (if prev \<and> list_all is_space cs then Some acc else None)
      else None)"

text \<open>
  \<open>int(s)\<close> in base 10: leading white space, an optional sign, the digits, trailing white
  space; a literal of more than 4300 digits is refused. \<open>None\<close> stands for the
  \<open>ValueError\<close> of a string that is no integer literal.
\<close>

definition py_int :: "string \<Rightarrow> int option" where
  "py_int s =
     (if 4300 < length (filter is_digit s) then None
      else
        (case dropWhile is_space s of
           [] \<Rightarrow> None
         | c # cs \<Rightarrow>
             if c = CHR ''-'' then map_option uminus (int_digits 0 False cs)
             else if c = CHR ''+'' then int_digits 0 False cs
             else int_digits 0 False (c # cs)))"

text \<open>
  Line 70 of the scheduler, \<open>hour, minute = map(int, tstr.split(":"))\<close>: exactly two
  parts, each an integer literal; anything else raises inside the \<open>try\<close>.
\<close>

definition parse_time :: "string \<Rightarrow> (int \<times> int) option" where
  "parse_time tstr =
     (case split_on CHR '':'' tstr of
        [a, b] \<Rightarrow> (case py_int a of
                     None \<Rightarrow> None
                   | Some hour \<Rightarrow> (case py_int b of
                                    None \<Rightarrow> None
                                  | Some minute \<Rightarrow> Some (hour, minute)))
      | _ \<Rightarrow> None)"

section \<open>The scheduler (\<open>src/scheduler/main.py\<close>)\<close>

subsection \<open>Configuration and inventory records\<close>

text \<open>
  The module-level settings read from the environment. \<open>POSTS_PER_DAY\<close> and
  \<open>JITTER_MINUTES\<close> are whatever \<open>int(...)\<close> made of the variable, so they may be
  negative.
\<close>

record config =
  API_BASE :: string
  VARIANT_BASE :: string
  IG_PUBLISH_BASE :: string
  TT_PUBLISH_BASE :: string
  YT_PUBLISH_BASE :: string
  POSTS_PER_DAY :: int
  JITTER_MINUTES :: int

text \<open>
  The records the inventory service serves, with the fields and types its creation
  endpoints write (\<open>src/api/main.py\<close>): every key is always present, \<open>access_token\<close>
  and \<open>title\<close> may be null.
\<close>

record account =
  acc_id :: string
  network :: string
  external_user_id :: string
  handle :: string
  access_token :: "string option"

record schedule =
  sched_id :: string
  account_id :: string
  post_times :: "string list"

record library =
  lib_id :: string
  lib_name :: string

record item =
  item_id :: string
  library_id :: string
  master_url :: string
  title :: "string option"

record caption =
  cap_id :: string
  library_item_id :: string
  platform :: string
  body :: string

subsection \<open>The outside world\<close>

text \<open>
  What the variant service and a publish adapter answer. \<open>VariantError\<close> is any
  exception inside the \<open>try\<close> of lines 95-98 (transport failure, a non-2xx status, a body
  that is no JSON object); \<open>VariantOk v\<close> carries \<open>vr.json().get("cdn_url")\<close>.
  \<open>PublishRaised\<close> is an exception of \<open>requests.post\<close>; \<open>PublishReplied\<close> carries the
  status code and the body text.
\<close>

datatype variant_response = VariantError | VariantOk jval

datatype publish_response = PublishRaised | PublishReplied int string

text \<open>
  Everything one iteration of the slot loop reads from outside: the three readings of
  \<open>datetime.now()\<close> (lines 75, 77 and 83), the three random draws (lines 80, 88 and 36)
  and the answers of the services. The inventory answers are the values \<open>fetch_json\<close>
  returns, that is the empty list on any failure.
\<close>

record slot_env =
  now1 :: datetime
  now2 :: datetime
  now3 :: datetime
  jitter_draw :: nat
  item_draw :: nat
  caption_draw :: nat
  captions_resp :: "string \<Rightarrow> caption list"
  variant_resp :: "string \<Rightarrow> dict \<Rightarrow> variant_response"
  publish_resp :: "string \<Rightarrow> dict \<Rightarrow> publish_response"

record world =
  schedules_resp :: "string \<Rightarrow> schedule list"
  libraries_resp :: "string \<Rightarrow> library list"
  items_resp :: "string \<Rightarrow> item list"
  slot :: "nat \<Rightarrow> slot_env"

text \<open>
  The observable effects, in the order they happen: inventory reads by URL, the sleep
  (in microseconds), the two kinds of POST with their bodies, and the log lines.
\<close>

datatype log_msg =
    MissingToken string
  | NoSchedules string
  | NoLibraries
  | NoItems
  | InvalidTime string
  | Sleeping int string
  | VariantFailed string
  | UnsupportedNetwork string string
  | Published string int string
  | PublishFailed string

datatype event =
    Fetch string
  | Sleep int
  | VariantPost string dict
  | PublishPost string dict
  | Log log_msg

text \<open>
  How a piece of the scheduler ends: it runs to its end (for a slot, also by
  \<open>continue\<close>), or an exception escapes it.
\<close>

datatype outcome = Done | Raised error

subsection \<open>\<open>pick_random_caption\<close>\<close>

definition pick_random_caption :: "caption list \<Rightarrow> string \<Rightarrow> nat \<Rightarrow> string option" where
  "pick_random_caption captions plat r =
     (let filtered = filter (\<lambda>c. platform c = plat) captions
      in if filtered = [] then None
         else Some (body (filtered ! randbelow (length filtered) r)))"

subsection \<open>The fire instant (lines 75-81)\<close>

text \<open>
  Lines 75-78: today at \<open>hour:minute\<close>, moved to tomorrow when it lies before the second
  reading of the clock.
\<close>

definition scheduled_base :: "datetime \<Rightarrow> datetime \<Rightarrow> int \<Rightarrow> int \<Rightarrow> error + datetime" where
  "scheduled_base n1 n2 hour minute =
     (case dt_replace n1 hour minute 0 0 of
        Inl e \<Rightarrow> Inl e
      | Inr scheduled_time \<Rightarrow>
          if dt_less scheduled_time n2 then dt_add scheduled_time (timedelta_days 1)
          else Inr scheduled_time)"

text \<open>Lines 80-81: the jitter drawn from \<open>[-JITTER_MINUTES, JITTER_MINUTES]\<close>.\<close>

definition draw_jitter :: "int \<Rightarrow> nat \<Rightarrow> error + int" where
  "draw_jitter jm r = randint (- jm) jm r"

definition fire_instant :: "int \<Rightarrow> datetime \<Rightarrow> datetime \<Rightarrow> nat \<Rightarrow> int \<Rightarrow> int \<Rightarrow> error + datetime" where
  "fire_instant jm n1 n2 r hour minute =
     (case scheduled_base n1 n2 hour minute of
        Inl e \<Rightarrow> Inl e
      | Inr scheduled_time \<Rightarrow>
          (case draw_jitter jm r of
             Inl e \<Rightarrow> Inl e
           | Inr jitter \<Rightarrow> dt_add scheduled_time (timedelta_minutes jitter)))"

subsection \<open>The publish request (lines 103-129)\<close>

text \<open>
  \<open>caption or item.get("title", "")\<close>: the caption unless it is empty, else the item's
  title as stored (null when the item has none).
\<close>

definition caption_or_title :: "string \<Rightarrow> item \<Rightarrow> jval" where
  "caption_or_title cap it = (if cap \<noteq> [] then JStr cap else jopt (title it))"

definition publish_request ::
  "config \<Rightarrow> account \<Rightarrow> string \<Rightarrow> jval \<Rightarrow> string \<Rightarrow> item \<Rightarrow> (string \<times> dict) option" where
  "publish_request cfg acc acc_token variant_url cap it =
     (if network acc = ''instagram'' then
        Some (IG_PUBLISH_BASE cfg @ ''/publish'',
              [(''ig_user_id'', JStr (external_user_id acc)),
               (''video_url'', variant_url),
               (''caption'', JStr cap),
               (''access_token'', JStr acc_token)])
      else if network acc = ''tiktok'' then
        Some (TT_PUBLISH_BASE cfg @ ''/publish'',
              [(''user_access_token'', JStr acc_token),
               (''video_url'', variant_url),
               (''title'', caption_or_title cap it)])
      else if network acc = ''youtube'' then
        Some (YT_PUBLISH_BASE cfg @ ''/publish'',
              [(''oauth_access_token'', JStr acc_token),
               (''file_url'', variant_url),
               (''title'', caption_or_title cap it),
               (''description'', caption_or_title cap it),
               (''privacy'', JStr ''public'')])
      else None)"

subsection \<open>One iteration of the slot loop (lines 67-135)\<close>

definition publish_step ::
  "config \<Rightarrow> slot_env \<Rightarrow> account \<Rightarrow> string \<Rightarrow> jval \<Rightarrow> string \<Rightarrow> item \<Rightarrow> event list" where
  "publish_step cfg se acc acc_token variant_url cap it =
     (case publish_request cfg acc acc_token variant_url cap it of
        None \<Rightarrow> [Log (UnsupportedNetwork (network acc) (acc_id acc))]
      | Some (pub_url, payload) \<Rightarrow>
          (case publish_resp se pub_url payload of
             PublishReplied status txt \<Rightarrow>
               [PublishPost pub_url payload, Log (Published (acc_id acc) status txt)]
           | PublishRaised \<Rightarrow>
               [PublishPost pub_url payload, Log (PublishFailed (acc_id acc))]))"

text \<open>Lines 87-135, after the sleep: the item, its caption, the variant, the publish.\<close>

definition post_step ::
  "config \<Rightarrow> slot_env \<Rightarrow> account \<Rightarrow> string \<Rightarrow> item list \<Rightarrow> outcome \<times> event list" where
  "post_step cfg se acc acc_token items =
     (case choice items (item_draw se) of
        Inl e \<Rightarrow> (Raised e, [])
      | Inr it \<Rightarrow>
          (let captions_url = API_BASE cfg @ ''/captions/'' @ item_id it;
               captions = captions_resp se captions_url;
               cap = (case pick_random_caption captions (network acc) (caption_draw se) of
                        None \<Rightarrow> []
                      | Some b \<Rightarrow> b);
               variant_req = [(''file_url'', JStr (master_url it)),
                              (''platform'', JStr (network acc))];
               variant_url = VARIANT_BASE cfg @ ''/variant''
           in (case variant_resp se variant_url variant_req of
                 VariantError \<Rightarrow>
                   (Done, [Fetch captions_url, VariantPost variant_url variant_req,
                           Log (VariantFailed (acc_id acc))])
               | VariantOk cdn_url \<Rightarrow>
                   (Done, [Fetch captions_url, VariantPost variant_url variant_req]
                          @ publish_step cfg se acc acc_token cdn_url cap it))))"

text \<open>Lines 83-86: the wait until the fire instant, if it lies ahead.\<close>

definition sleep_step :: "slot_env \<Rightarrow> account \<Rightarrow> datetime \<Rightarrow> event list" where
  "sleep_step se acc scheduled_time =
     (let delta = dt_micros scheduled_time - dt_micros (now3 se)
      in if delta > 0 then [Log (Sleeping delta (acc_id acc)), Sleep delta] else [])"

definition process_slot ::
  "config \<Rightarrow> slot_env \<Rightarrow> account \<Rightarrow> string \<Rightarrow> item list \<Rightarrow> string \<Rightarrow> outcome \<times> event list" where
  "process_slot cfg se acc acc_token items tstr =
     (case parse_time tstr of
        None \<Rightarrow> (Done, [Log (InvalidTime tstr)])
      | Some (hour, minute) \<Rightarrow>
          (case fire_instant (JITTER_MINUTES cfg) (now1 se) (now2 se) (jitter_draw se) hour minute of
             Inl e \<Rightarrow> (Raised e, [])
           | Inr scheduled_time \<Rightarrow>
               (case post_step cfg se acc acc_token items of
                  (out, evs) \<Rightarrow> (out, sleep_step se acc scheduled_time @ evs))))"

text \<open>
  The \<open>for tstr in times_strs\<close> loop; \<open>i\<close> counts the iterations. An exception that
  escapes an iteration ends the loop.
\<close>

fun run_slots ::
  "config \<Rightarrow> world \<Rightarrow> account \<Rightarrow> string \<Rightarrow> item list \<Rightarrow> nat \<Rightarrow> string list \<Rightarrow> outcome \<times> event list" where
  "run_slots cfg w acc acc_token items i [] = (Done, [])"
| "run_slots cfg w acc acc_token items i (tstr # rest) =
     (case process_slot cfg (slot w i) acc acc_token items tstr of
        (Raised e, evs) \<Rightarrow> (Raised e, evs)
      | (Done, evs) \<Rightarrow>
          (case run_slots cfg w acc acc_token items (Suc i) rest of
             (out, evs') \<Rightarrow> (out, evs @ evs')))"

subsection \<open>\<open>schedule_for_account\<close>\<close>

text \<open>\<open>xs[:n]\<close>: a negative \<open>n\<close> counts from the end.\<close>

definition slice_to :: "int \<Rightarrow> 'a list \<Rightarrow> 'a list" where
  "slice_to n xs =
     (if 0 \<le> n then take (nat n) xs else take (length xs - nat (- n)) xs)"

text \<open>Lines 52-55: the loop that extends \<open>times_strs\<close>, then the slice.\<close>

definition flatten_times :: "schedule list \<Rightarrow> string list" where
  "flatten_times schedules = foldl (\<lambda>times_strs sched. times_strs @ post_times sched) [] schedules"

definition effective_times :: "config \<Rightarrow> schedule list \<Rightarrow> string list" where
  "effective_times cfg schedules = slice_to (POSTS_PER_DAY cfg) (flatten_times schedules)"

definition schedule_for_account :: "config \<Rightarrow> world \<Rightarrow> account \<Rightarrow> outcome \<times> event list" where
  "schedule_for_account cfg w acc =
     (case access_token acc of
        None \<Rightarrow> (Done, [Log (MissingToken (acc_id acc))])
      | Some acc_token \<Rightarrow>
          if acc_token = [] then (Done, [Log (MissingToken (acc_id acc))])
          else
            (let schedules_url = API_BASE cfg @ ''/schedules/'' @ acc_id acc;
                 schedules = schedules_resp w schedules_url
             in if schedules = [] then (Done, [Fetch schedules_url, Log (NoSchedules (acc_id acc))])
                else
                  (let times_strs = effective_times cfg schedules;
                       libraries_url = API_BASE cfg @ ''/libraries'';
                       libs = libraries_resp w libraries_url
                   in (case libs of
                         [] \<Rightarrow> (Done, [Fetch schedules_url, Fetch libraries_url, Log NoLibraries])
                       | lib # _ \<Rightarrow>
                           (let items_url = API_BASE cfg @ ''/libraries/'' @ lib_id lib @ ''/items'';
                                items = items_resp w items_url
                            in if items = []
                               then (Done, [Fetch schedules_url, Fetch libraries_url,
                                            Fetch items_url, Log NoItems])
                               else
                                 (case run_slots cfg w acc acc_token items 0 times_strs of
                                    (out, evs) \<Rightarrow>
                                      (out, [Fetch schedules_url, Fetch libraries_url,
                                             Fetch items_url] @ evs)))))))"

section \<open>The variant service (\<open>src/tools/variant-api/main.py\<close>)\<close>

record variant_request =
  req_file_url :: string
  req_platform :: string
  req_seed :: "string option"

definition vf :: string where
  "vf = ''scale=iw*1.01:ih*1.01,crop=iw:ih,pad=ceil(iw/2)*2:ceil(ih/2)*2:color=black,setsar=1''"

definition spices :: "string list" where
  "spices =
     [''eq=brightness=0.01:contrast=1.02'',
      ''unsharp=5:5:0.5'',
      ''gblur=sigma=0.3'',
      ''hue=h=2:s=1'',
      []]"

text \<open>
  Line 55, \<open>idx = hash(seed) % len(spices) if seed else 0\<close>. The built-in \<open>hash\<close> of
  the serving interpreter is a parameter; \<open>%\<close> with a positive modulus is never
  negative, as \<open>mod\<close> on \<open>int\<close>.
\<close>

definition spice_index :: "(string \<Rightarrow> int) \<Rightarrow> string option \<Rightarrow> nat" where
  "spice_index hash sd =
     (case sd of
        None \<Rightarrow> 0
      | Some s \<Rightarrow> if s = [] then 0 else nat (hash s mod int (length spices)))"

definition vf_full :: "(string \<Rightarrow> int) \<Rightarrow> string option \<Rightarrow> string" where
  "vf_full hash sd =
     (let spice = spices ! spice_index hash sd
      in if spice \<noteq> [] then vf @ '','' @ spice else vf)"

text \<open>The command line \<open>run_ffmpeg\<close> hands to the subprocess.\<close>

definition run_ffmpeg_cmd :: "(string \<Rightarrow> int) \<Rightarrow> string \<Rightarrow> string \<Rightarrow> string option \<Rightarrow> string list" where
  "run_ffmpeg_cmd hash input_url output_path sd =
     [''ffmpeg'', ''-y'', ''-i'', input_url, ''-vf'', vf_full hash sd,
      ''-c:v'', ''libx264'', ''-preset'', ''veryfast'', ''-crf'', ''18'',
      ''-pix_fmt'', ''yuv420p'', ''-af'', ''volume=+0.5dB'',
      ''-movflags'', ''+faststart'', output_path]"

text \<open>
  Lines 88-90 of \<open>create_variant\<close>: \<open>seed = req.seed or uuid.uuid4().hex\<close>, where
  \<open>fresh\<close> and \<open>tmp\<close> are the two fresh uuids of the call, and the transcoding
  command that results.
\<close>

definition effective_seed :: "variant_request \<Rightarrow> string \<Rightarrow> string" where
  "effective_seed req fresh =
     (case req_seed req of
        None \<Rightarrow> fresh
      | Some s \<Rightarrow> if s = [] then fresh else s)"

definition create_variant_profile :: "(string \<Rightarrow> int) \<Rightarrow> variant_request \<Rightarrow> string \<Rightarrow> nat" where
  "create_variant_profile hash req fresh = spice_index hash (Some (effective_seed req fresh))"

definition create_variant_cmd ::
  "(string \<Rightarrow> int) \<Rightarrow> variant_request \<Rightarrow> string \<Rightarrow> string \<Rightarrow> string list" where
  "create_variant_cmd hash req fresh tmp =
     run_ffmpeg_cmd hash (req_file_url req) (''/tmp/'' @ tmp @ ''.mp4'')
       (Some (effective_seed req fresh))"

section \<open>The inventory service: accounts (\<open>src/api/main.py\<close>)\<close>

record account_create =
  ac_network :: string
  ac_external_user_id :: string
  ac_handle :: string
  ac_access_token :: "string option"

text \<open>
  The module-level list \<open>accounts\<close> and the files \<open>_save\<close> has written, by name.
\<close>

record api_state =
  accounts :: "dict list"
  disk :: "string \<rightharpoonup> dict list"

definition save :: "string \<Rightarrow> dict list \<Rightarrow> api_state \<Rightarrow> api_state" where
  "save filename data st = st\<lparr>disk := (disk st)(filename \<mapsto> data)\<rparr>"

text \<open>
  \<open>create_account\<close> with the id \<open>_generate_id()\<close> returned: the response body and the
  new state.
\<close>

definition create_account :: "string \<Rightarrow> account_create \<Rightarrow> api_state \<Rightarrow> dict \<times> api_state" where
  "create_account new_id acc st =
     (let st1 = st\<lparr>accounts := accounts st @
                   [[(''id'', JStr new_id),
                     (''network'', JStr (ac_network acc)),
                     (''external_user_id'', JStr (ac_external_user_id acc)),
                     (''handle'', JStr (ac_handle acc)),
                     (''access_token'', jopt (ac_access_token acc))]]\<rparr>;
          st2 = save ''accounts.json'' (accounts st1) st1
      in ([(''id'', JStr new_id),
           (''network'', JStr (ac_network acc)),
           (''external_user_id'', JStr (ac_external_user_id acc)),
           (''handle'', JStr (ac_handle acc))],
          st2))"

definition list_accounts :: "api_state \<Rightarrow> dict list" where
  "list_accounts st = accounts st"

section \<open>Concrete inputs\<close>

text \<open>The configuration with the defaults of lines 8-14.\<close>

definition default_config :: config where
  "default_config =
     \<lparr>API_BASE = ''http://api:8000'',
      VARIANT_BASE = ''http://variant-api:8000'',
      IG_PUBLISH_BASE = ''http://ig-publisher:8000'',
      TT_PUBLISH_BASE = ''http://tt-publisher:8000'',
      YT_PUBLISH_BASE = ''http://yt-publisher:8000'',
      POSTS_PER_DAY = 3,
      JITTER_MINUTES = 15\<rparr>"

text \<open>Scenario B of the specification: two schedules contributing four times.\<close>

definition scenario_b_schedules :: "schedule list" where
  "scenario_b_schedules =
     [\<lparr>sched_id = ''s1'', account_id = ''a1'', post_times = [''08:00'', ''12:00'']\<rparr>,
      \<lparr>sched_id = ''s2'', account_id = ''a1'', post_times = [''18:00'', ''22:00'']\<rparr>]"

definition instagram_account :: account where
  "instagram_account =
     \<lparr>acc_id = ''a1'', network = ''instagram'', external_user_id = ''1789'',
      handle = ''@studio'', access_token = Some ''tok-1''\<rparr>"

definition tokenless_account :: account where
  "tokenless_account = instagram_account\<lparr>access_token := None\<rparr>"

definition library_one :: library where
  "library_one = \<lparr>lib_id = ''lib-1'', lib_name = ''evergreen''\<rparr>"

definition library_two :: library where
  "library_two = \<lparr>lib_id = ''lib-2'', lib_name = ''seasonal''\<rparr>"

definition item_one :: item where
  "item_one =
     \<lparr>item_id = ''i1'', library_id = ''lib-1'',
      master_url = ''https://cdn.example/master1.mp4'', title = Some ''Launch day''\<rparr>"

definition item_two :: item where
  "item_two =
     \<lparr>item_id = ''i2'', library_id = ''lib-1'',
      master_url = ''https://cdn.example/master2.mp4'', title = None\<rparr>"

definition nine_oclock :: datetime where
  "nine_oclock =
     \<lparr>dt_day = 740000, dt_hour = 9, dt_minute = 0, dt_second = 0, dt_microsecond = 0\<rparr>"

text \<open>
  A slot in which the variant service is down, and one in which every service answers.
\<close>

definition variant_down_env :: slot_env where
  "variant_down_env =
     \<lparr>now1 = nine_oclock, now2 = nine_oclock, now3 = nine_oclock,
      jitter_draw = 15, item_draw = 0, caption_draw = 0,
      captions_resp = (\<lambda>url. []),
      variant_resp = (\<lambda>url req. VariantError),
      publish_resp = (\<lambda>url payload. PublishReplied 200 ''ok'')\<rparr>"

definition all_up_env :: slot_env where
  "all_up_env =
     variant_down_env\<lparr>variant_resp := (\<lambda>url req. VariantOk (JStr ''/static/v1.mp4''))\<rparr>"

definition example_world :: world where
  "example_world =
     \<lparr>schedules_resp = (\<lambda>url. scenario_b_schedules),
      libraries_resp = (\<lambda>url. [library_one, library_two]),
      items_resp = (\<lambda>url. if url = ''http://api:8000/libraries/lib-1/items''
                           then [item_one, item_two] else []),
      slot = (\<lambda>i. if i = 0 then variant_down_env else all_up_env)\<rparr>"

definition seeded_request :: variant_request where
  "seeded_request =
     \<lparr>req_file_url = ''https://cdn.example/master1.mp4'', req_platform = ''tiktok'',
      req_seed = Some ''spring''\<rparr>"

text \<open>A stand-in for the built-in \<open>hash\<close> of one interpreter process.\<close>

definition length_hash :: "string \<Rightarrow> int" where
  "length_hash s = int (length s) - 3"

definition new_account :: account_create where
  "new_account =
     \<lparr>ac_network = ''youtube'', ac_external_user_id = ''UC42'', ac_handle = ''@studio'',
      ac_access_token = Some ''secret-1''\<rparr>"

definition empty_api :: api_state where
  "empty_api = \<lparr>accounts = [], disk = Map.empty\<rparr>"


text \<open>
  A slot list whose first time has a minute out of range, one whose first time is no
  pair of integers, a world whose first library is empty, and one whose times are words.
\<close>

definition bad_minute_world :: world where
  "bad_minute_world =
     example_world\<lparr>schedules_resp :=
       (\<lambda>url. [\<lparr>sched_id = ''s1'', account_id = ''a1'', post_times = [''10:99'', ''12:00'']\<rparr>])\<rparr>"

definition garbled_time_world :: world where
  "garbled_time_world =
     example_world\<lparr>schedules_resp :=
       (\<lambda>url. [\<lparr>sched_id = ''s1'', account_id = ''a1'', post_times = [''10:xx'', ''12:00'']\<rparr>])\<rparr>"

definition empty_first_library_world :: world where
  "empty_first_library_world =
     example_world\<lparr>libraries_resp := (\<lambda>url. [library_two, library_one])\<rparr>"

definition free_text_world :: world where
  "free_text_world =
     example_world\<lparr>schedules_resp :=
       (\<lambda>url. [\<lparr>sched_id = ''s1'', account_id = ''a1'',
                  post_times = [''soon'', ''later'', ''noon'', ''dusk'']\<rparr>])\<rparr>"

section \<open>Well-formed times\<close>

text \<open>
  The strings the claims call valid \<open>HH:MM\<close>: two digits, a colon, two digits, the hour
  at most 23 and the minute at most 59; and the hour and minute such a string denotes.
\<close>

definition is_hhmm :: "string \<Rightarrow> bool" where
  "is_hhmm s \<longleftrightarrow>
     length s = 5 \<and> is_digit (s ! 0) \<and> is_digit (s ! 1) \<and> s ! 2 = CHR '':'' \<and>
     is_digit (s ! 3) \<and> is_digit (s ! 4) \<and>
     digit_val (s ! 0) * 10 + digit_val (s ! 1) \<le> 23 \<and>
     digit_val (s ! 3) * 10 + digit_val (s ! 4) \<le> 59"

definition hhmm_hour :: "string \<Rightarrow> int" where
  "hhmm_hour s = digit_val (s ! 0) * 10 + digit_val (s ! 1)"

definition hhmm_minute :: "string \<Rightarrow> int" where
  "hhmm_minute s = digit_val (s ! 3) * 10 + digit_val (s ! 4)"

section \<open>Properties of the standard-library model\<close>

subsection \<open>Datetime arithmetic\<close>

lemma dt_less_iff_micros:
  assumes "valid_datetime a" "valid_datetime b"
  shows "dt_less a b \<longleftrightarrow> dt_micros a < dt_micros b"
  using assms unfolding valid_datetime_def dt_less_def dt_micros_def
  by auto

lemma dt_add_micros:
  assumes "dt_add d td = Inr d'"
  shows "dt_micros d' = dt_micros d + td * 60000000"
proof -
  define total where "total = dt_hour d * 60 + dt_minute d + td"
  have d': "d' = d\<lparr>dt_day := dt_day d + total div 1440, dt_hour := (total mod 1440) div 60,
                   dt_minute := (total mod 1440) mod 60\<rparr>"
    using assms by (auto simp: dt_add_def Let_def total_def split: if_splits)
  have "(total mod 1440) div 60 * 60 + (total mod 1440) mod 60 = total mod 1440"
    by simp
  moreover have "total div 1440 * 1440 + total mod 1440 = total"
    by simp
  ultimately have "((dt_day d + total div 1440) * 24 + (total mod 1440) div 60) * 60 + (total mod 1440) mod 60
      = dt_day d * 1440 + total"
    by (simp add: algebra_simps)
  then show ?thesis
    by (simp add: d' dt_micros_def total_def algebra_simps)
qed

lemma dt_add_valid:
  assumes "dt_add d td = Inr d'" "valid_datetime d"
  shows "valid_datetime d'"
  using assms
  by (auto simp: dt_add_def Let_def valid_datetime_def split: if_splits)

lemma dt_replace_valid:
  assumes "valid_datetime n" "0 \<le> h" "h \<le> 23" "0 \<le> m" "m \<le> 59"
  shows "dt_replace n h m 0 0 = Inr (n\<lparr>dt_hour := h, dt_minute := m, dt_second := 0, dt_microsecond := 0\<rparr>)"
    and "valid_datetime (n\<lparr>dt_hour := h, dt_minute := m, dt_second := 0, dt_microsecond := 0\<rparr>)"
  using assms by (simp_all add: dt_replace_def c_int_def valid_datetime_def)

lemma dt_add_one_day:
  assumes "valid_datetime d" "dt_day d < MAXORDINAL"
  shows "dt_add d (timedelta_days 1) = Inr (d\<lparr>dt_day := dt_day d + 1\<rparr>)"
proof -
  let ?t = "dt_hour d * 60 + dt_minute d"
  from assms(1) have r: "0 \<le> ?t" "?t < 1440"
    by (simp_all add: valid_datetime_def)
  then have "(?t + 1440) div 1440 = 1" "(?t + 1440) mod 1440 = ?t"
    by simp_all
  moreover have "?t div 60 = dt_hour d" "?t mod 60 = dt_minute d"
    using assms(1) by (simp_all add: valid_datetime_def)
  ultimately show ?thesis
    using assms by (simp add: dt_add_def timedelta_days_def valid_datetime_def)
qed


lemma micros_day_bounds:
  assumes "valid_datetime d"
  shows "dt_day d * 86400000000 \<le> dt_micros d" "dt_micros d < (dt_day d + 1) * 86400000000"
  using assms by (simp_all add: valid_datetime_def dt_micros_def)

lemma dt_add_in_range:
  assumes "valid_datetime d" "- jm \<le> j" "j \<le> jm"
    and lo: "jm \<le> 1440 * (dt_day d - 1)" and hi: "jm \<le> 1440 * (MAXORDINAL - dt_day d - 1)"
  shows "\<exists>d'. dt_add d j = Inr d'"
proof -
  let ?t = "dt_hour d * 60 + dt_minute d"
  from assms(1) have r: "0 \<le> ?t" "?t < 1440"
    by (simp_all add: valid_datetime_def)
  have "1440 * (1 - dt_day d) \<le> ?t + j" using r lo assms(2) by (simp add: algebra_simps)
  then have "(1440 * (1 - dt_day d)) div 1440 \<le> (?t + j) div 1440"
    by (intro zdiv_mono1) simp_all
  then have low: "1 - dt_day d \<le> (?t + j) div 1440" by simp
  have "?t + j \<le> 1439 + 1440 * (MAXORDINAL - dt_day d - 1)" using r hi assms(3) by (simp add: algebra_simps)
  then have "(?t + j) div 1440 \<le> (1439 + 1440 * (MAXORDINAL - dt_day d - 1)) div 1440"
    by (intro zdiv_mono1) simp_all
  then have high: "(?t + j) div 1440 \<le> MAXORDINAL - dt_day d - 1" by simp
  from low high show ?thesis
    by (simp add: dt_add_def Let_def)
qed

lemma dt_add_back:
  assumes "dt_add d td = Inr d'" "valid_datetime d"
  shows "dt_add d' (- td) = Inr d"
proof -
  define total where "total = dt_hour d * 60 + dt_minute d + td"
  let ?t = "dt_hour d * 60 + dt_minute d"
  from assms(2) have r: "0 \<le> ?t" "?t < 1440" and hm: "?t div 60 = dt_hour d" "?t mod 60 = dt_minute d"
    by (simp_all add: valid_datetime_def)
  have d': "d' = d\<lparr>dt_day := dt_day d + total div 1440, dt_hour := (total mod 1440) div 60,
                   dt_minute := (total mod 1440) mod 60\<rparr>"
    using assms(1) by (auto simp: dt_add_def Let_def total_def split: if_splits)
  have undo: "(total mod 1440) div 60 * 60 + (total mod 1440) mod 60 - td = ?t + (- (total div 1440)) * 1440"
  proof -
    have "(total mod 1440) div 60 * 60 + (total mod 1440) mod 60 = total mod 1440" by simp
    moreover have "total mod 1440 = total - total div 1440 * 1440"
      by (simp add: minus_div_mult_eq_mod)
    ultimately show ?thesis by (simp add: total_def)
  qed
  have "(?t + (- (total div 1440)) * 1440) div 1440 = - (total div 1440)"
       "(?t + (- (total div 1440)) * 1440) mod 1440 = ?t"
    using r by (simp_all only: div_mult_self1 [of 1440 ?t] mod_mult_self1 div_mult_self3 mod_mult_self3 div_pos_pos_trivial mod_pos_pos_trivial)
  then show ?thesis
    using assms(2) hm undo
    by (simp add: dt_add_def Let_def d' valid_datetime_def)
qed

subsection \<open>Random draws and parsing\<close>

lemma is_digit_facts:
  assumes "is_digit c"
  shows "\<not> is_space c" "c \<noteq> CHR ''-''" "c \<noteq> CHR ''+''" "c \<noteq> CHR ''_''" "c \<noteq> CHR '':''"
    "0 \<le> digit_val c" "digit_val c \<le> 9"
  using assms by (auto simp: is_digit_def is_space_def digit_val_def)

lemma py_int_two_digits:
  assumes "is_digit a" "is_digit b"
  shows "py_int [a, b] = Some (digit_val a * 10 + digit_val b)"
  using assms is_digit_facts [of a] by (simp add: py_int_def)

lemma split_hhmm:
  assumes "a \<noteq> CHR '':''" "b \<noteq> CHR '':''" "c \<noteq> CHR '':''" "d \<noteq> CHR '':''"
  shows "split_on CHR '':'' [a, b, CHR '':'', c, d] = [[a, b], [c, d]]"
  using assms by simp

lemma hhmm_shape:
  assumes "is_hhmm s"
  shows "s = [s ! 0, s ! 1, CHR '':'', s ! 3, s ! 4]"
proof -
  from assms have len: "length s = 5" and colon: "s ! 2 = CHR '':''"
    by (simp_all add: is_hhmm_def)
  from len have "length s = Suc (Suc (Suc (Suc (Suc 0))))" by simp
  then obtain a b c d e where s: "s = [a, b, c, d, e]"
    by (auto simp: length_Suc_conv)
  with colon show ?thesis by simp
qed

lemma parse_time_hhmm:
  assumes "is_hhmm s"
  shows "parse_time s = Some (hhmm_hour s, hhmm_minute s)"
proof -
  let ?a = "s ! 0" and ?b = "s ! 1" and ?c = "s ! 3" and ?d = "s ! 4"
  from assms have dig: "is_digit ?a" "is_digit ?b" "is_digit ?c" "is_digit ?d"
    by (simp_all add: is_hhmm_def)
  have "split_on CHR '':'' [?a, ?b, CHR '':'', ?c, ?d] = [[?a, ?b], [?c, ?d]]"
    using dig by (intro split_hhmm is_digit_facts)
  then have "parse_time [?a, ?b, CHR '':'', ?c, ?d] = Some (hhmm_hour s, hhmm_minute s)"
    using dig by (simp add: parse_time_def py_int_two_digits hhmm_hour_def hhmm_minute_def)
  then show ?thesis using hhmm_shape [OF assms] by simp
qed

lemma hhmm_range:
  assumes "is_hhmm s"
  shows "0 \<le> hhmm_hour s" "hhmm_hour s \<le> 23" "0 \<le> hhmm_minute s" "hhmm_minute s \<le> 59"
  using assms is_digit_facts(6) [of "s ! 0"] is_digit_facts(6) [of "s ! 1"]
    is_digit_facts(6) [of "s ! 3"] is_digit_facts(6) [of "s ! 4"]
  by (auto simp: is_hhmm_def hhmm_hour_def hhmm_minute_def)

lemma draw_jitter_range:
  assumes "0 \<le> jm"
  shows "\<exists>j. draw_jitter jm r = Inr j \<and> - jm \<le> j \<and> j \<le> jm"
proof -
  have pos: "0 < nat (2 * jm + 1)" using assms by simp
  have "int (r mod nat (2 * jm + 1)) < int (nat (2 * jm + 1))"
    using pos by (metis mod_less_divisor of_nat_less_iff)
  then have "int (r mod nat (2 * jm + 1)) \<le> 2 * jm" using assms by simp
  then show ?thesis using assms
    by (simp add: draw_jitter_def randint_def randbelow_def)
qed

section \<open>Properties of the scheduler\<close>

subsection \<open>Accounts without credentials\<close>

text \<open>
  Claim C6. An account whose \<open>access_token\<close> is null or the empty string ends its cycle
  at the credential check: the run returns normally and its only effect is the log line,
  so it fetches nothing from the inventory, requests no variant and publishes nothing.
\<close>

theorem no_token_no_calls:
  "access_token acc = None \<or> access_token acc = Some [] \<Longrightarrow>
   schedule_for_account cfg w acc = (Done, [Log (MissingToken (acc_id acc))])"
  by (auto simp: schedule_for_account_def)

theorem no_token_no_calls_example:
  "(access_token tokenless_account = None \<or> access_token tokenless_account = Some []) \<and>
   schedule_for_account default_config example_world tokenless_account
     = (Done, [Log (MissingToken ''a1'')])"
  using no_token_no_calls [of tokenless_account default_config example_world]
  by (simp add: tokenless_account_def instagram_account_def)

subsection \<open>The fire instant\<close>

lemma scheduled_base_two_reads:
  assumes "valid_datetime n1" "valid_datetime n2" "0 \<le> h" "h \<le> 23" "0 \<le> m" "m \<le> 59" "dt_day n1 < MAXORDINAL"
  shows "scheduled_base n1 n2 h m =
     (let base = n1\<lparr>dt_hour := h, dt_minute := m, dt_second := 0, dt_microsecond := 0\<rparr>
      in Inr (if dt_micros base < dt_micros n2 then base\<lparr>dt_day := dt_day n1 + 1\<rparr> else base))"
proof -
  let ?base = "n1\<lparr>dt_hour := h, dt_minute := m, dt_second := 0, dt_microsecond := 0\<rparr>"
  have rep: "dt_replace n1 h m 0 0 = Inr ?base" and vb: "valid_datetime ?base"
    using assms by (simp_all add: dt_replace_valid)
  have less: "dt_less ?base n2 \<longleftrightarrow> dt_micros ?base < dt_micros n2"
    using vb assms(2) by (rule dt_less_iff_micros)
  have "dt_add ?base (timedelta_days 1) = Inr (?base\<lparr>dt_day := dt_day ?base + 1\<rparr>)"
    using vb assms(7) by (intro dt_add_one_day) simp_all
  then show ?thesis
    by (simp add: scheduled_base_def rep less Let_def)
qed


text \<open>
  Claim C7, as the code has it. For a valid \<open>HH:MM\<close> string the base instant is the
  date of the first clock reading at \<open>HH:MM:00\<close>. When the base lies strictly before
  the clock reading it is compared with, the instant before jitter is the base moved by
  exactly one day (the next date, the same time of day, 86400 seconds later); otherwise,
  and so also when the base equals that reading, it is the base itself.
\<close>

theorem rollover_strictly_passed:
  assumes "is_hhmm tstr" "valid_datetime n1" "valid_datetime n2" "dt_day n1 < MAXORDINAL"
  shows "\<exists>base.
     parse_time tstr = Some (hhmm_hour tstr, hhmm_minute tstr) \<and>
     dt_replace n1 (hhmm_hour tstr) (hhmm_minute tstr) 0 0 = Inr base \<and>
     dt_day base = dt_day n1 \<and>
     scheduled_base n1 n2 (hhmm_hour tstr) (hhmm_minute tstr)
       = Inr (if dt_micros base < dt_micros n2 then base\<lparr>dt_day := dt_day n1 + 1\<rparr> else base) \<and>
     dt_micros (base\<lparr>dt_day := dt_day n1 + 1\<rparr>) = dt_micros base + 86400000000"
proof -
  let ?h = "hhmm_hour tstr" and ?m = "hhmm_minute tstr"
  let ?base = "n1\<lparr>dt_hour := ?h, dt_minute := ?m, dt_second := 0, dt_microsecond := 0\<rparr>"
  note rng = hhmm_range [OF assms(1)]
  have "dt_replace n1 ?h ?m 0 0 = Inr ?base"
    using assms(2) rng by (rule dt_replace_valid)
  moreover have "scheduled_base n1 n2 ?h ?m
       = Inr (if dt_micros ?base < dt_micros n2 then ?base\<lparr>dt_day := dt_day n1 + 1\<rparr> else ?base)"
    using scheduled_base_two_reads [OF assms(2,3) rng assms(4)] by (simp add: Let_def)
  moreover have "dt_micros (?base\<lparr>dt_day := dt_day n1 + 1\<rparr>) = dt_micros ?base + 86400000000"
    by (simp add: dt_micros_def)
  ultimately show ?thesis
    using parse_time_hhmm [OF assms(1)] by (intro exI [of _ ?base]) simp
qed

theorem rollover_scenario_a:
  "is_hhmm ''08:00'' \<and> valid_datetime nine_oclock \<and> dt_day nine_oclock < MAXORDINAL \<and>
   parse_time ''08:00'' = Some (8, 0) \<and>
   scheduled_base nine_oclock nine_oclock 8 0
     = Inr \<lparr>dt_day = 740001, dt_hour = 8, dt_minute = 0, dt_second = 0, dt_microsecond = 0\<rparr>"
  using rollover_strictly_passed [of "''08:00''" nine_oclock nine_oclock]
  by (simp add: is_hhmm_def is_digit_def digit_val_def hhmm_hour_def hhmm_minute_def
      nine_oclock_def valid_datetime_def MAXORDINAL_def dt_micros_def scheduled_base_def
      dt_replace_def c_int_def dt_less_def dt_add_def timedelta_days_def parse_time_def py_int_def
      is_space_def)

text \<open>
  The claim as stated fails when the base equals the clock reading: at 09:00:00.000000
  the time \<open>09:00\<close> gives a base equal to now, line 77 compares with \<open><\<close>, and the
  instant stays today instead of moving to tomorrow.
\<close>

theorem rollover_not_at_equal_instant:
  "is_hhmm ''09:00'' \<and> parse_time ''09:00'' = Some (9, 0) \<and>
   dt_replace nine_oclock 9 0 0 0 = Inr nine_oclock \<and>
   dt_micros nine_oclock \<le> dt_micros nine_oclock \<and>
   scheduled_base nine_oclock nine_oclock 9 0 = Inr nine_oclock \<and>
   dt_add nine_oclock (timedelta_days 1) = Inr (nine_oclock\<lparr>dt_day := 740001\<rparr>) \<and>
   scheduled_base nine_oclock nine_oclock 9 0 \<noteq> dt_add nine_oclock (timedelta_days 1)"
  by (simp add: is_hhmm_def is_digit_def digit_val_def parse_time_def py_int_def is_space_def
      nine_oclock_def dt_replace_def c_int_def scheduled_base_def dt_less_def dt_add_def
      timedelta_days_def MAXORDINAL_def)

text \<open>
  Claim C2, as the code has it. For a valid \<open>HH:MM\<close> string, a clock that reads
  \<open>now\<close> at lines 75 and 77, a non-negative \<open>JITTER_MINUTES\<close> and any draw of the
  generator, with \<open>now\<close> far enough from both ends of the datetime range for the
  jitter, the fire instant is computed and lies at or after \<open>now\<close> minus
  \<open>JITTER_MINUTES\<close> minutes. Taking the jitter off again gives the instant before
  jitter, whose time of day is the input's hour and minute at second 0 and whose date is
  today or tomorrow. The date of the fire instant itself is that date moved by the
  jitter: at most the jitter bound, rounded up to whole days, before or after it.
\<close>

theorem fire_instant_bounds:
  assumes "is_hhmm tstr" "valid_datetime now" "0 \<le> jm"
    and lo: "jm \<le> 1440 * (dt_day now - 1)"
    and hi: "jm \<le> 1440 * (MAXORDINAL - dt_day now - 2)"
  shows "\<exists>pre jitter inst.
     parse_time tstr = Some (hhmm_hour tstr, hhmm_minute tstr) \<and>
     scheduled_base now now (hhmm_hour tstr) (hhmm_minute tstr) = Inr pre \<and>
     draw_jitter jm r = Inr jitter \<and> - jm \<le> jitter \<and> jitter \<le> jm \<and>
     fire_instant jm now now r (hhmm_hour tstr) (hhmm_minute tstr) = Inr inst \<and>
     dt_micros now - jm * 60000000 \<le> dt_micros inst \<and>
     dt_add inst (timedelta_minutes (- jitter)) = Inr pre \<and>
     dt_hour pre = hhmm_hour tstr \<and> dt_minute pre = hhmm_minute tstr \<and>
     dt_second pre = 0 \<and> dt_microsecond pre = 0 \<and>
     (dt_day pre = dt_day now \<or> dt_day pre = dt_day now + 1) \<and>
     dt_day pre + (- jm) div 1440 \<le> dt_day inst \<and>
     dt_day inst \<le> dt_day pre + (jm + 1439) div 1440"
proof -
  let ?h = "hhmm_hour tstr" and ?m = "hhmm_minute tstr"
  let ?base = "now\<lparr>dt_hour := ?h, dt_minute := ?m, dt_second := 0, dt_microsecond := 0\<rparr>"
  define pre where "pre = (if dt_micros ?base < dt_micros now then ?base\<lparr>dt_day := dt_day now + 1\<rparr> else ?base)"
  note rng = hhmm_range [OF assms(1)]
  have day: "dt_day now < MAXORDINAL" using assms(3) hi by simp
  have vb: "valid_datetime ?base"
    using assms(2) rng by (rule dt_replace_valid)
  have sb: "scheduled_base now now ?h ?m = Inr pre"
    using scheduled_base_two_reads [OF assms(2,2) rng day] by (simp add: Let_def pre_def)
  have vpre: "valid_datetime pre"
    using vb day by (simp add: pre_def valid_datetime_def)
  have fields: "dt_hour pre = ?h" "dt_minute pre = ?m" "dt_second pre = 0" "dt_microsecond pre = 0"
    by (simp_all add: pre_def)
  have days: "dt_day pre = dt_day now \<or> dt_day pre = dt_day now + 1"
    by (simp add: pre_def)
  have ahead: "dt_micros now \<le> dt_micros pre"
  proof (cases "dt_micros ?base < dt_micros now")
    case True
    have "dt_micros now < (dt_day now + 1) * 86400000000"
      using assms(2) by (rule micros_day_bounds)
    also have "\<dots> \<le> dt_micros (?base\<lparr>dt_day := dt_day now + 1\<rparr>)"
      using rng by (simp add: dt_micros_def)
    finally show ?thesis using True by (simp add: pre_def)
  next
    case False
    then show ?thesis by (simp add: pre_def)
  qed
  obtain jitter where j: "draw_jitter jm r = Inr jitter" "- jm \<le> jitter" "jitter \<le> jm"
    using draw_jitter_range [OF assms(3)] by blast
  have "\<exists>inst. dt_add pre jitter = Inr inst"
  proof (rule dt_add_in_range [OF vpre j(2,3)])
    show "jm \<le> 1440 * (dt_day pre - 1)" using lo days by auto
    show "jm \<le> 1440 * (MAXORDINAL - dt_day pre - 1)" using hi days by auto
  qed
  then obtain inst where inst: "dt_add pre jitter = Inr inst" ..
  have fi: "fire_instant jm now now r ?h ?m = Inr inst"
    by (simp add: fire_instant_def sb j(1) inst timedelta_minutes_def)
  have "dt_micros inst = dt_micros pre + jitter * 60000000"
    using inst by (rule dt_add_micros)
  then have bound: "dt_micros now - jm * 60000000 \<le> dt_micros inst"
    using ahead j(2) by simp
  have idate: "dt_day pre + (- jm) div 1440 \<le> dt_day inst"
    "dt_day inst \<le> dt_day pre + (jm + 1439) div 1440"
  proof -
    let ?t = "dt_hour pre * 60 + dt_minute pre"
    from vpre have r: "0 \<le> ?t" "?t \<le> 1439"
      by (simp_all add: valid_datetime_def)
    have d: "dt_day inst = dt_day pre + (?t + jitter) div 1440"
      using inst by (auto simp: dt_add_def Let_def split: if_splits)
    have "- jm \<le> ?t + jitter" using r(1) j(2) by simp
    then have "(- jm) div 1440 \<le> (?t + jitter) div 1440"
      by (intro zdiv_mono1) simp_all
    then show "dt_day pre + (- jm) div 1440 \<le> dt_day inst" by (simp add: d)
    have "?t + jitter \<le> jm + 1439" using r(2) j(3) by simp
    then have "(?t + jitter) div 1440 \<le> (jm + 1439) div 1440"
      by (intro zdiv_mono1) simp_all
    then show "dt_day inst \<le> dt_day pre + (jm + 1439) div 1440" by (simp add: d)
  qed
  have undo: "dt_add inst (timedelta_minutes (- jitter)) = Inr pre"
    using dt_add_back [OF inst vpre] by (simp add: timedelta_minutes_def)
  show ?thesis
    using parse_time_hhmm [OF assms(1)] sb j fi bound undo fields days idate
    by (intro exI [of _ pre] exI [of _ jitter] exI [of _ inst]) simp
qed

theorem fire_instant_scenario_a:
  "is_hhmm ''08:00'' \<and> valid_datetime nine_oclock \<and> (0::int) \<le> 15 \<and>
   15 \<le> 1440 * (dt_day nine_oclock - 1) \<and>
   15 \<le> 1440 * (MAXORDINAL - dt_day nine_oclock - 2) \<and>
   draw_jitter 15 3 = Inr (- 12) \<and>
   fire_instant 15 nine_oclock nine_oclock 3 8 0
     = Inr \<lparr>dt_day = 740001, dt_hour = 7, dt_minute = 48, dt_second = 0, dt_microsecond = 0\<rparr> \<and>
   dt_micros nine_oclock - 15 * 60000000
     \<le> dt_micros \<lparr>dt_day = 740001, dt_hour = 7, dt_minute = 48, dt_second = 0, dt_microsecond = 0\<rparr>"
  using fire_instant_bounds [of "''08:00''" nine_oclock 15 3]
  by (simp add: is_hhmm_def is_digit_def digit_val_def hhmm_hour_def hhmm_minute_def
      nine_oclock_def valid_datetime_def MAXORDINAL_def dt_micros_def fire_instant_def
      scheduled_base_def dt_replace_def c_int_def dt_less_def dt_add_def timedelta_days_def
      timedelta_minutes_def draw_jitter_def randint_def randbelow_def parse_time_def
      py_int_def is_space_def)

text \<open>
  The claim as stated fails for the date of the fire instant itself. The jitter is added
  after the move to tomorrow: at 23:56 the time \<open>23:55\<close> gives tomorrow 23:55, and with
  \<open>JITTER_MINUTES = 15\<close> the draw 30 is a jitter of 15 minutes, which carries the
  instant to 00:10 of the day after tomorrow.
\<close>

theorem fire_instant_date_beyond_tomorrow:
  "is_hhmm ''23:55'' \<and> parse_time ''23:55'' = Some (23, 55) \<and>
   valid_datetime (nine_oclock\<lparr>dt_hour := 23, dt_minute := 56\<rparr>) \<and>
   dt_day (nine_oclock\<lparr>dt_hour := 23, dt_minute := 56\<rparr>) = 740000 \<and>
   scheduled_base (nine_oclock\<lparr>dt_hour := 23, dt_minute := 56\<rparr>)
       (nine_oclock\<lparr>dt_hour := 23, dt_minute := 56\<rparr>) 23 55
     = Inr \<lparr>dt_day = 740001, dt_hour = 23, dt_minute = 55, dt_second = 0, dt_microsecond = 0\<rparr> \<and>
   draw_jitter 15 30 = Inr 15 \<and>
   fire_instant 15 (nine_oclock\<lparr>dt_hour := 23, dt_minute := 56\<rparr>)
       (nine_oclock\<lparr>dt_hour := 23, dt_minute := 56\<rparr>) 30 23 55
     = Inr \<lparr>dt_day = 740002, dt_hour = 0, dt_minute = 10, dt_second = 0, dt_microsecond = 0\<rparr> \<and>
   (740002 :: int) \<noteq> 740000 \<and> (740002 :: int) \<noteq> 740000 + 1"
  by (simp add: is_hhmm_def is_digit_def digit_val_def parse_time_def py_int_def is_space_def
      valid_datetime_def nine_oclock_def fire_instant_def scheduled_base_def dt_replace_def
      c_int_def dt_less_def dt_add_def timedelta_days_def timedelta_minutes_def
      draw_jitter_def randint_def randbelow_def MAXORDINAL_def)

subsection \<open>The events of a slot\<close>

lemma sleep_step_events:
  "VariantPost url req \<notin> set (sleep_step se acc t)" "PublishPost u p \<notin> set (sleep_step se acc t)"
  by (simp_all add: sleep_step_def Let_def)

lemma publish_step_events:
  "VariantPost url req \<notin> set (publish_step cfg se acc tok v cap it)"
  by (simp add: publish_step_def split: option.splits prod.splits publish_response.splits)

lemma post_step_cases:
  assumes "post_step cfg se acc tok items = (out, evs)"
  shows "(out = Raised IndexError \<and> evs = [] \<and> items = []) \<or>
    (\<exists>it. it \<in> set items \<and> choice items (item_draw se) = Inr it \<and> out = Done \<and>
      (let captions_url = API_BASE cfg @ ''/captions/'' @ item_id it;
           req = [(''file_url'', JStr (master_url it)), (''platform'', JStr (network acc))];
           vurl = VARIANT_BASE cfg @ ''/variant''
       in (variant_resp se vurl req = VariantError \<and>
           evs = [Fetch captions_url, VariantPost vurl req, Log (VariantFailed (acc_id acc))]) \<or>
          (\<exists>cdn cap. variant_resp se vurl req = VariantOk cdn \<and>
           evs = [Fetch captions_url, VariantPost vurl req] @ publish_step cfg se acc tok cdn cap it)))"
proof (cases "items = []")
  case True
  with assms show ?thesis by (simp add: post_step_def choice_def)
next
  case False
  let ?it = "items ! randbelow (length items) (item_draw se)"
  have mem: "?it \<in> set items" using False by (simp add: randbelow_def)
  have ch: "choice items (item_draw se) = Inr ?it" using False by (simp add: choice_def)
  show ?thesis
    using assms mem ch
    by (cases "variant_resp se (VARIANT_BASE cfg @ ''/variant'')
                 [(''file_url'', JStr (master_url ?it)), (''platform'', JStr (network acc))]")
       (auto simp: post_step_def Let_def)
qed

lemma process_slot_cases:
  assumes "process_slot cfg se acc tok items tstr = (out, evs)"
  shows "(parse_time tstr = None \<and> out = Done \<and> evs = [Log (InvalidTime tstr)]) \<or>
    (\<exists>e. out = Raised e \<and> evs = [] \<and> parse_time tstr \<noteq> None) \<or>
    (\<exists>t out' evs'. post_step cfg se acc tok items = (out', evs') \<and> out = out' \<and>
        evs = sleep_step se acc t @ evs')"
  using assms
  by (auto simp: process_slot_def split: option.splits sum.splits prod.splits)

lemma process_slot_variant_failed:
  assumes "process_slot cfg se acc tok items tstr = (out, evs)"
    and "VariantPost url req \<in> set evs"
    and "variant_resp se url req = VariantError"
  shows "out = Done" "PublishPost u p \<notin> set evs" "Log (VariantFailed (acc_id acc)) \<in> set evs"
proof -
  from process_slot_cases [OF assms(1)] assms(2)
  obtain t out' evs' where ps: "post_step cfg se acc tok items = (out', evs')" "out = out'"
      "evs = sleep_step se acc t @ evs'"
    by auto
  with assms(2) have inp: "VariantPost url req \<in> set evs'"
    by (simp add: sleep_step_events)
  from post_step_cases [OF ps(1)] inp assms(3)
  have "out' = Done \<and> (\<exists>c. evs' = [Fetch c, VariantPost url req, Log (VariantFailed (acc_id acc))])"
    by (auto simp: Let_def publish_step_events)
  then show "out = Done" "PublishPost u p \<notin> set evs" "Log (VariantFailed (acc_id acc)) \<in> set evs"
    using ps(2,3) by (auto simp: sleep_step_events)
qed







text \<open>The definitions a concrete run unfolds.\<close>

lemmas scheduler_eval =
  schedule_for_account_def effective_times_def flatten_times_def slice_to_def
  process_slot_def post_step_def publish_step_def sleep_step_def publish_request_def
  caption_or_title_def pick_random_caption_def fire_instant_def scheduled_base_def
  draw_jitter_def randint_def randbelow_def choice_def dt_replace_def c_int_def dt_less_def dt_add_def
  dt_micros_def timedelta_days_def timedelta_minutes_def MAXORDINAL_def parse_time_def
  py_int_def is_space_def is_digit_def digit_val_def

lemmas example_inputs =
  default_config_def example_world_def bad_minute_world_def garbled_time_world_def
  empty_first_library_world_def variant_down_env_def all_up_env_def instagram_account_def
  library_one_def library_two_def item_one_def item_two_def nine_oclock_def
  scenario_b_schedules_def

subsection \<open>Malformed times\<close>

text \<open>
  A time that is no two integers around one colon is logged and skipped; the loop goes
  on with the next slot.
\<close>

lemma unparsable_time_skips_slot:
  assumes "parse_time tstr = None"
  shows "process_slot cfg (slot w i) acc tok items tstr = (Done, [Log (InvalidTime tstr)])"
    and "run_slots cfg w acc tok items i (tstr # rest)
       = (fst (run_slots cfg w acc tok items (Suc i) rest),
          Log (InvalidTime tstr) # snd (run_slots cfg w acc tok items (Suc i) rest))"
  using assms by (simp_all add: process_slot_def split: prod.splits)

lemma garbled_time_run:
  "parse_time ''10:xx'' = None \<and>
   schedule_for_account default_config garbled_time_world instagram_account
     = (Done,
        [Fetch ''http://api:8000/schedules/a1'', Fetch ''http://api:8000/libraries'',
         Fetch ''http://api:8000/libraries/lib-1/items'',
         Log (InvalidTime ''10:xx''),
         Log (Sleeping 10800000000 ''a1''), Sleep 10800000000,
         Fetch ''http://api:8000/captions/i1'',
         VariantPost ''http://variant-api:8000/variant''
           [(''file_url'', JStr ''https://cdn.example/master1.mp4''),
            (''platform'', JStr ''instagram'')],
         PublishPost ''http://ig-publisher:8000/publish''
           [(''ig_user_id'', JStr ''1789''), (''video_url'', JStr ''/static/v1.mp4''),
            (''caption'', JStr []), (''access_token'', JStr ''tok-1'')],
         Log (Published ''a1'' 200 ''ok'')])"
  by (simp add: scheduler_eval example_inputs)

text \<open>
  Claim C3 fails on the code. The time \<open>10:99\<close> parses to hour 10 and minute 99, so the
  \<open>try\<close> of lines 69-73 does not catch it; \<open>replace\<close> on line 75 raises \<open>ValueError\<close>
  outside the \<open>try\<close>, the exception leaves the slot loop with no event for the slot,
  and the following slots are never run. With the post times \<open>10:99\<close> and \<open>12:00\<close> the
  cycle ends after its three inventory reads.
\<close>

theorem out_of_range_minute_aborts_cycle:
  "parse_time ''10:99'' = Some (10, 99) \<and>
   process_slot cfg se acc tok items ''10:99'' = (Raised ValueError, []) \<and>
   run_slots cfg w acc tok items i (''10:99'' # rest) = (Raised ValueError, []) \<and>
   schedule_for_account default_config bad_minute_world instagram_account
     = (Raised ValueError,
        [Fetch ''http://api:8000/schedules/a1'', Fetch ''http://api:8000/libraries'',
         Fetch ''http://api:8000/libraries/lib-1/items''])"
proof -
  have p: "parse_time ''10:99'' = Some (10, 99)"
    by (simp add: parse_time_def py_int_def is_space_def is_digit_def digit_val_def)
  have s: "process_slot cfg se acc tok items ''10:99'' = (Raised ValueError, [])" for cfg se acc tok items
    by (simp add: process_slot_def p fire_instant_def scheduled_base_def dt_replace_def c_int_def)
  have c: "schedule_for_account default_config bad_minute_world instagram_account
     = (Raised ValueError,
        [Fetch ''http://api:8000/schedules/a1'', Fetch ''http://api:8000/libraries'',
         Fetch ''http://api:8000/libraries/lib-1/items''])"
    by (simp add: schedule_for_account_def effective_times_def flatten_times_def slice_to_def
        s example_inputs)
  show ?thesis using p s c by simp
qed

subsection \<open>Variant failures\<close>

text \<open>
  Claim C4. In a slot that asked the variant service for a variant and was answered with
  a failure, the slot ends normally after logging the failure, none of its events is a
  publish call (so no adapter is sent anything, the master URL included), and the loop
  goes on with the remaining slots.
\<close>

theorem variant_failure_skips_publish:
  assumes "process_slot cfg (slot w i) acc tok items tstr = (out, evs)"
    and "VariantPost url req \<in> set evs"
    and "variant_resp (slot w i) url req = VariantError"
  shows "out = Done \<and> (\<forall>u p. PublishPost u p \<notin> set evs) \<and>
     Log (VariantFailed (acc_id acc)) \<in> set evs \<and>
     run_slots cfg w acc tok items i (tstr # rest)
       = (fst (run_slots cfg w acc tok items (Suc i) rest),
          evs @ snd (run_slots cfg w acc tok items (Suc i) rest))"
proof -
  note facts = process_slot_variant_failed [OF assms]
  have "run_slots cfg w acc tok items i (tstr # rest)
       = (fst (run_slots cfg w acc tok items (Suc i) rest),
          evs @ snd (run_slots cfg w acc tok items (Suc i) rest))"
    using assms(1) facts(1) by (simp split: prod.splits)
  with facts show ?thesis by blast
qed

theorem variant_failure_example:
  "process_slot default_config (slot example_world 0) instagram_account ''tok-1''
       [item_one, item_two] ''08:00''
     = (Done,
        [Log (Sleeping 82800000000 ''a1''), Sleep 82800000000,
         Fetch ''http://api:8000/captions/i1'',
         VariantPost ''http://variant-api:8000/variant''
           [(''file_url'', JStr ''https://cdn.example/master1.mp4''),
            (''platform'', JStr ''instagram'')],
         Log (VariantFailed ''a1'')]) \<and>
   variant_resp (slot example_world 0) ''http://variant-api:8000/variant''
       [(''file_url'', JStr ''https://cdn.example/master1.mp4''),
        (''platform'', JStr ''instagram'')] = VariantError \<and>
   run_slots default_config example_world instagram_account ''tok-1'' [item_one, item_two] 0
       [''08:00'', ''12:00'']
     = (Done,
        [Log (Sleeping 82800000000 ''a1''), Sleep 82800000000,
         Fetch ''http://api:8000/captions/i1'',
         VariantPost ''http://variant-api:8000/variant''
           [(''file_url'', JStr ''https://cdn.example/master1.mp4''),
            (''platform'', JStr ''instagram'')],
         Log (VariantFailed ''a1''),
         Log (Sleeping 10800000000 ''a1''), Sleep 10800000000,
         Fetch ''http://api:8000/captions/i1'',
         VariantPost ''http://variant-api:8000/variant''
           [(''file_url'', JStr ''https://cdn.example/master1.mp4''),
            (''platform'', JStr ''instagram'')],
         PublishPost ''http://ig-publisher:8000/publish''
           [(''ig_user_id'', JStr ''1789''), (''video_url'', JStr ''/static/v1.mp4''),
            (''caption'', JStr []), (''access_token'', JStr ''tok-1'')],
         Log (Published ''a1'' 200 ''ok'')])"
proof -
  let ?req = "[(''file_url'', JStr ''https://cdn.example/master1.mp4''),
              (''platform'', JStr ''instagram'')]"
  let ?evs = "[Log (Sleeping 82800000000 ''a1''), Sleep 82800000000,
         Fetch ''http://api:8000/captions/i1'',
         VariantPost ''http://variant-api:8000/variant'' ?req,
         Log (VariantFailed ''a1'')]"
  have first: "process_slot default_config (slot example_world 0) instagram_account ''tok-1''
       [item_one, item_two] ''08:00'' = (Done, ?evs)"
    by (simp add: scheduler_eval example_inputs)
  have down: "variant_resp (slot example_world 0) ''http://variant-api:8000/variant'' ?req
       = VariantError"
    by (simp add: example_inputs)
  have sent: "VariantPost ''http://variant-api:8000/variant'' ?req \<in> set ?evs"
    by simp
  have next_slot: "run_slots default_config example_world instagram_account ''tok-1''
       [item_one, item_two] (Suc 0) [''12:00'']
     = (Done,
        [Log (Sleeping 10800000000 ''a1''), Sleep 10800000000,
         Fetch ''http://api:8000/captions/i1'',
         VariantPost ''http://variant-api:8000/variant'' ?req,
         PublishPost ''http://ig-publisher:8000/publish''
           [(''ig_user_id'', JStr ''1789''), (''video_url'', JStr ''/static/v1.mp4''),
            (''caption'', JStr []), (''access_token'', JStr ''tok-1'')],
         Log (Published ''a1'' 200 ''ok'')])"
    by (simp add: scheduler_eval example_inputs)
  from variant_failure_skips_publish [OF first sent down, of "[''12:00'']"] first down next_slot
  show ?thesis by simp
qed

subsection \<open>Content selection\<close>







subsection \<open>The publish payload\<close>



subsection \<open>The effective post-time list\<close>

lemma foldl_extend_concat:
  "foldl (\<lambda>times_strs sched. times_strs @ post_times sched) start schedules
     = start @ concat (map post_times schedules)"
  by (induction schedules arbitrary: start) simp_all

lemma effective_times_slice:
  "effective_times cfg schedules
     = (if 0 \<le> POSTS_PER_DAY cfg
        then take (nat (POSTS_PER_DAY cfg)) (concat (map post_times schedules))
        else take (length (concat (map post_times schedules)) - nat (- POSTS_PER_DAY cfg))
               (concat (map post_times schedules)))"
  by (simp add: effective_times_def slice_to_def flatten_times_def foldl_extend_concat)

lemma run_slots_unparsable:
  "\<forall>t \<in> set tstrs. parse_time t = None \<Longrightarrow>
   run_slots cfg w acc tok items i tstrs = (Done, map (\<lambda>t. Log (InvalidTime t)) tstrs)"
  by (induction tstrs arbitrary: i) (simp_all add: process_slot_def)

lemma effective_times_subset:
  "set (effective_times cfg schedules) \<subseteq> set (concat (map post_times schedules))"
  unfolding effective_times_slice by (auto dest: in_set_takeD)

lemma cycle_runs_slot_loop:
  assumes "access_token acc = Some tok" and "tok \<noteq> []"
    and "schedules_resp w (API_BASE cfg @ ''/schedules/'' @ acc_id acc) = schedules"
    and "schedules \<noteq> []"
    and "libraries_resp w (API_BASE cfg @ ''/libraries'') = lib # libs"
    and "items_resp w (API_BASE cfg @ ''/libraries/'' @ lib_id lib @ ''/items'') = items"
    and "items \<noteq> []"
  shows "schedule_for_account cfg w acc
       = (fst (run_slots cfg w acc tok items 0 (effective_times cfg schedules)),
          [Fetch (API_BASE cfg @ ''/schedules/'' @ acc_id acc),
           Fetch (API_BASE cfg @ ''/libraries''),
           Fetch (API_BASE cfg @ ''/libraries/'' @ lib_id lib @ ''/items'')]
          @ snd (run_slots cfg w acc tok items 0 (effective_times cfg schedules))) \<and>
     ((\<forall>t \<in> set (concat (map post_times schedules)). parse_time t = None) \<longrightarrow>
      schedule_for_account cfg w acc
        = (Done,
           [Fetch (API_BASE cfg @ ''/schedules/'' @ acc_id acc),
            Fetch (API_BASE cfg @ ''/libraries''),
            Fetch (API_BASE cfg @ ''/libraries/'' @ lib_id lib @ ''/items'')]
           @ map (\<lambda>t. Log (InvalidTime t)) (effective_times cfg schedules)))"
proof -
  let ?loop = "run_slots cfg w acc tok items 0 (effective_times cfg schedules)"
  have cycle: "schedule_for_account cfg w acc
       = (fst ?loop,
          [Fetch (API_BASE cfg @ ''/schedules/'' @ acc_id acc),
           Fetch (API_BASE cfg @ ''/libraries''),
           Fetch (API_BASE cfg @ ''/libraries/'' @ lib_id lib @ ''/items'')] @ snd ?loop)"
    using assms by (simp add: schedule_for_account_def Let_def split: prod.splits)
  have "?loop = (Done, map (\<lambda>t. Log (InvalidTime t)) (effective_times cfg schedules))"
    if "\<forall>t \<in> set (concat (map post_times schedules)). parse_time t = None"
    using that effective_times_subset [of cfg schedules]
    by (intro run_slots_unparsable) blast
  with cycle show ?thesis
    by simp
qed

text \<open>
  Claim C5, as the code has it. The effective list is the concatenation of the fetched
  schedules' \<open>post_times\<close> in the order fetched, cut to its first \<open>POSTS_PER_DAY\<close>
  entries when that setting is not negative; a negative setting removes that many
  entries from the end instead. For an account that reaches the slot loop (a token, at
  least one schedule, a first library with items) the loop runs over that list and over
  nothing else: the cycle is the three inventory reads followed by the slot loop on the
  list, and when no time of the schedules parses, the log of the cycle lists exactly the
  effective times, in order.
\<close>

theorem slot_loop_runs_truncated_times:
  "effective_times cfg schedules
     = (if 0 \<le> POSTS_PER_DAY cfg
        then take (nat (POSTS_PER_DAY cfg)) (concat (map post_times schedules))
        else take (length (concat (map post_times schedules)) - nat (- POSTS_PER_DAY cfg))
               (concat (map post_times schedules))) \<and>
   (access_token acc = Some tok \<and> tok \<noteq> [] \<and>
    schedules_resp w (API_BASE cfg @ ''/schedules/'' @ acc_id acc) = schedules \<and>
    schedules \<noteq> [] \<and>
    libraries_resp w (API_BASE cfg @ ''/libraries'') = lib # libs \<and>
    items_resp w (API_BASE cfg @ ''/libraries/'' @ lib_id lib @ ''/items'') = items \<and>
    items \<noteq> [] \<longrightarrow>
      schedule_for_account cfg w acc
        = (fst (run_slots cfg w acc tok items 0 (effective_times cfg schedules)),
           [Fetch (API_BASE cfg @ ''/schedules/'' @ acc_id acc),
            Fetch (API_BASE cfg @ ''/libraries''),
            Fetch (API_BASE cfg @ ''/libraries/'' @ lib_id lib @ ''/items'')]
           @ snd (run_slots cfg w acc tok items 0 (effective_times cfg schedules))) \<and>
      ((\<forall>t \<in> set (concat (map post_times schedules)). parse_time t = None) \<longrightarrow>
       schedule_for_account cfg w acc
         = (Done,
            [Fetch (API_BASE cfg @ ''/schedules/'' @ acc_id acc),
             Fetch (API_BASE cfg @ ''/libraries''),
             Fetch (API_BASE cfg @ ''/libraries/'' @ lib_id lib @ ''/items'')]
            @ map (\<lambda>t. Log (InvalidTime t)) (effective_times cfg schedules))))"
proof (intro conjI impI)
  show "effective_times cfg schedules
     = (if 0 \<le> POSTS_PER_DAY cfg
        then take (nat (POSTS_PER_DAY cfg)) (concat (map post_times schedules))
        else take (length (concat (map post_times schedules)) - nat (- POSTS_PER_DAY cfg))
               (concat (map post_times schedules)))"
    by (rule effective_times_slice)
next
  assume reach: "access_token acc = Some tok \<and> tok \<noteq> [] \<and>
    schedules_resp w (API_BASE cfg @ ''/schedules/'' @ acc_id acc) = schedules \<and>
    schedules \<noteq> [] \<and>
    libraries_resp w (API_BASE cfg @ ''/libraries'') = lib # libs \<and>
    items_resp w (API_BASE cfg @ ''/libraries/'' @ lib_id lib @ ''/items'') = items \<and>
    items \<noteq> []"
  then have both: "schedule_for_account cfg w acc
        = (fst (run_slots cfg w acc tok items 0 (effective_times cfg schedules)),
           [Fetch (API_BASE cfg @ ''/schedules/'' @ acc_id acc),
            Fetch (API_BASE cfg @ ''/libraries''),
            Fetch (API_BASE cfg @ ''/libraries/'' @ lib_id lib @ ''/items'')]
           @ snd (run_slots cfg w acc tok items 0 (effective_times cfg schedules))) \<and>
      ((\<forall>t \<in> set (concat (map post_times schedules)). parse_time t = None) \<longrightarrow>
       schedule_for_account cfg w acc
         = (Done,
            [Fetch (API_BASE cfg @ ''/schedules/'' @ acc_id acc),
             Fetch (API_BASE cfg @ ''/libraries''),
             Fetch (API_BASE cfg @ ''/libraries/'' @ lib_id lib @ ''/items'')]
            @ map (\<lambda>t. Log (InvalidTime t)) (effective_times cfg schedules)))"
    by (intro cycle_runs_slot_loop) blast+
  from both show "schedule_for_account cfg w acc
        = (fst (run_slots cfg w acc tok items 0 (effective_times cfg schedules)),
           [Fetch (API_BASE cfg @ ''/schedules/'' @ acc_id acc),
            Fetch (API_BASE cfg @ ''/libraries''),
            Fetch (API_BASE cfg @ ''/libraries/'' @ lib_id lib @ ''/items'')]
           @ snd (run_slots cfg w acc tok items 0 (effective_times cfg schedules)))" ..
  assume "\<forall>t \<in> set (concat (map post_times schedules)). parse_time t = None"
  with both show "schedule_for_account cfg w acc
         = (Done,
            [Fetch (API_BASE cfg @ ''/schedules/'' @ acc_id acc),
             Fetch (API_BASE cfg @ ''/libraries''),
             Fetch (API_BASE cfg @ ''/libraries/'' @ lib_id lib @ ''/items'')]
            @ map (\<lambda>t. Log (InvalidTime t)) (effective_times cfg schedules))"
    by blast
qed

theorem slot_loop_scenario_b:
  "access_token instagram_account = Some ''tok-1'' \<and>
   schedules_resp example_world ''http://api:8000/schedules/a1'' = scenario_b_schedules \<and>
   concat (map post_times scenario_b_schedules) = [''08:00'', ''12:00'', ''18:00'', ''22:00''] \<and>
   POSTS_PER_DAY default_config = 3 \<and>
   effective_times default_config scenario_b_schedules = [''08:00'', ''12:00'', ''18:00''] \<and>
   schedule_for_account default_config example_world instagram_account
     = (Done,
        [Fetch ''http://api:8000/schedules/a1'', Fetch ''http://api:8000/libraries'',
         Fetch ''http://api:8000/libraries/lib-1/items'',
         Log (Sleeping 82800000000 ''a1''), Sleep 82800000000,
         Fetch ''http://api:8000/captions/i1'',
         VariantPost ''http://variant-api:8000/variant''
           [(''file_url'', JStr ''https://cdn.example/master1.mp4''),
            (''platform'', JStr ''instagram'')],
         Log (VariantFailed ''a1''),
         Log (Sleeping 10800000000 ''a1''), Sleep 10800000000,
         Fetch ''http://api:8000/captions/i1'',
         VariantPost ''http://variant-api:8000/variant''
           [(''file_url'', JStr ''https://cdn.example/master1.mp4''),
            (''platform'', JStr ''instagram'')],
         PublishPost ''http://ig-publisher:8000/publish''
           [(''ig_user_id'', JStr ''1789''), (''video_url'', JStr ''/static/v1.mp4''),
            (''caption'', JStr []), (''access_token'', JStr ''tok-1'')],
         Log (Published ''a1'' 200 ''ok''),
         Log (Sleeping 32400000000 ''a1''), Sleep 32400000000,
         Fetch ''http://api:8000/captions/i1'',
         VariantPost ''http://variant-api:8000/variant''
           [(''file_url'', JStr ''https://cdn.example/master1.mp4''),
            (''platform'', JStr ''instagram'')],
         PublishPost ''http://ig-publisher:8000/publish''
           [(''ig_user_id'', JStr ''1789''), (''video_url'', JStr ''/static/v1.mp4''),
            (''caption'', JStr []), (''access_token'', JStr ''tok-1'')],
         Log (Published ''a1'' 200 ''ok'')]) \<and>
   schedules_resp free_text_world ''http://api:8000/schedules/a1''
     = [\<lparr>sched_id = ''s1'', account_id = ''a1'',
         post_times = [''soon'', ''later'', ''noon'', ''dusk'']\<rparr>] \<and>
   parse_time ''soon'' = None \<and> parse_time ''later'' = None \<and>
   parse_time ''noon'' = None \<and> parse_time ''dusk'' = None \<and>
   schedule_for_account default_config free_text_world instagram_account
     = (Done,
        [Fetch ''http://api:8000/schedules/a1'', Fetch ''http://api:8000/libraries'',
         Fetch ''http://api:8000/libraries/lib-1/items'',
         Log (InvalidTime ''soon''), Log (InvalidTime ''later''), Log (InvalidTime ''noon'')])"
proof -
  have tok: "access_token instagram_account = Some ''tok-1''" "''tok-1'' \<noteq> []"
    by (simp_all add: instagram_account_def)
  have sch: "schedules_resp example_world (API_BASE default_config @ ''/schedules/'' @ acc_id instagram_account)
      = scenario_b_schedules" "scenario_b_schedules \<noteq> []"
    by (simp_all add: example_world_def scenario_b_schedules_def)
  have sch': "schedules_resp free_text_world (API_BASE default_config @ ''/schedules/'' @ acc_id instagram_account)
      = [\<lparr>sched_id = ''s1'', account_id = ''a1'',
          post_times = [''soon'', ''later'', ''noon'', ''dusk'']\<rparr>]"
    by (simp add: free_text_world_def)
  have libs: "libraries_resp example_world (API_BASE default_config @ ''/libraries'')
      = library_one # [library_two]"
    "libraries_resp free_text_world (API_BASE default_config @ ''/libraries'')
      = library_one # [library_two]"
    by (simp_all add: example_world_def free_text_world_def)
  have its: "items_resp example_world (API_BASE default_config @ ''/libraries/'' @ lib_id library_one @ ''/items'')
      = [item_one, item_two]"
    "items_resp free_text_world (API_BASE default_config @ ''/libraries/'' @ lib_id library_one @ ''/items'')
      = [item_one, item_two]"
    by (simp_all add: example_world_def free_text_world_def default_config_def library_one_def)
  have unparsable: "parse_time ''soon'' = None" "parse_time ''later'' = None"
    "parse_time ''noon'' = None" "parse_time ''dusk'' = None"
    by (simp_all add: parse_time_def)
  have three: "effective_times default_config scenario_b_schedules = [''08:00'', ''12:00'', ''18:00'']"
    "effective_times default_config
       [\<lparr>sched_id = ''s1'', account_id = ''a1'',
         post_times = [''soon'', ''later'', ''noon'', ''dusk'']\<rparr>]
     = [''soon'', ''later'', ''noon'']"
    by (simp_all add: effective_times_slice default_config_def scenario_b_schedules_def)
  have loop: "run_slots default_config example_world instagram_account ''tok-1''
      [item_one, item_two] 0 [''08:00'', ''12:00'', ''18:00'']
     = (Done,
        [Log (Sleeping 82800000000 ''a1''), Sleep 82800000000,
         Fetch ''http://api:8000/captions/i1'',
         VariantPost ''http://variant-api:8000/variant''
           [(''file_url'', JStr ''https://cdn.example/master1.mp4''),
            (''platform'', JStr ''instagram'')],
         Log (VariantFailed ''a1''),
         Log (Sleeping 10800000000 ''a1''), Sleep 10800000000,
         Fetch ''http://api:8000/captions/i1'',
         VariantPost ''http://variant-api:8000/variant''
           [(''file_url'', JStr ''https://cdn.example/master1.mp4''),
            (''platform'', JStr ''instagram'')],
         PublishPost ''http://ig-publisher:8000/publish''
           [(''ig_user_id'', JStr ''1789''), (''video_url'', JStr ''/static/v1.mp4''),
            (''caption'', JStr []), (''access_token'', JStr ''tok-1'')],
         Log (Published ''a1'' 200 ''ok''),
         Log (Sleeping 32400000000 ''a1''), Sleep 32400000000,
         Fetch ''http://api:8000/captions/i1'',
         VariantPost ''http://variant-api:8000/variant''
           [(''file_url'', JStr ''https://cdn.example/master1.mp4''),
            (''platform'', JStr ''instagram'')],
         PublishPost ''http://ig-publisher:8000/publish''
           [(''ig_user_id'', JStr ''1789''), (''video_url'', JStr ''/static/v1.mp4''),
            (''caption'', JStr []), (''access_token'', JStr ''tok-1'')],
         Log (Published ''a1'' 200 ''ok'')])"
    by (simp add: scheduler_eval example_inputs)
  have urls: "API_BASE default_config = ''http://api:8000''" "acc_id instagram_account = ''a1''"
    "lib_id library_one = ''lib-1''"
    by (simp_all add: default_config_def instagram_account_def library_one_def)
  have ne: "[item_one, item_two] \<noteq> []"
    "[\<lparr>sched_id = ''s1'', account_id = ''a1'',
       post_times = [''soon'', ''later'', ''noon'', ''dusk'']\<rparr>] \<noteq> []"
    by simp_all
  have words: "\<forall>t \<in> set (concat (map post_times
      [\<lparr>sched_id = ''s1'', account_id = ''a1'',
        post_times = [''soon'', ''later'', ''noon'', ''dusk'']\<rparr>])). parse_time t = None"
    using unparsable by simp
  note thm_a = slot_loop_runs_truncated_times [where cfg = default_config
      and schedules = scenario_b_schedules and acc = instagram_account and tok = "''tok-1''"
      and w = example_world and lib = library_one and libs = "[library_two]"
      and items = "[item_one, item_two]"]
  note thm_b = slot_loop_runs_truncated_times [where cfg = default_config
      and schedules = "[\<lparr>sched_id = ''s1'', account_id = ''a1'',
                         post_times = [''soon'', ''later'', ''noon'', ''dusk'']\<rparr>]"
      and acc = instagram_account and tok = "''tok-1''"
      and w = free_text_world and lib = library_one and libs = "[library_two]"
      and items = "[item_one, item_two]"]
  from tok sch libs(1) its(1) ne(1) have a: "schedule_for_account default_config example_world instagram_account
        = (fst (run_slots default_config example_world instagram_account ''tok-1''
                  [item_one, item_two] 0 (effective_times default_config scenario_b_schedules)),
           [Fetch (API_BASE default_config @ ''/schedules/'' @ acc_id instagram_account),
            Fetch (API_BASE default_config @ ''/libraries''),
            Fetch (API_BASE default_config @ ''/libraries/'' @ lib_id library_one @ ''/items'')]
           @ snd (run_slots default_config example_world instagram_account ''tok-1''
                  [item_one, item_two] 0 (effective_times default_config scenario_b_schedules)))"
    using thm_a by blast
  from tok sch' libs(2) its(2) ne words have b: "schedule_for_account default_config free_text_world instagram_account
         = (Done,
            [Fetch (API_BASE default_config @ ''/schedules/'' @ acc_id instagram_account),
             Fetch (API_BASE default_config @ ''/libraries''),
             Fetch (API_BASE default_config @ ''/libraries/'' @ lib_id library_one @ ''/items'')]
            @ map (\<lambda>t. Log (InvalidTime t))
                (effective_times default_config
                   [\<lparr>sched_id = ''s1'', account_id = ''a1'',
                      post_times = [''soon'', ''later'', ''noon'', ''dusk'']\<rparr>]))"
    using thm_b by blast
  have cycle_a: "schedule_for_account default_config example_world instagram_account
      = (Done,
         [Fetch ''http://api:8000/schedules/a1'', Fetch ''http://api:8000/libraries'',
          Fetch ''http://api:8000/libraries/lib-1/items'']
         @ snd (run_slots default_config example_world instagram_account ''tok-1''
                  [item_one, item_two] 0 [''08:00'', ''12:00'', ''18:00'']))"
    using a unfolding three(1) loop urls by simp
  have cycle_b: "schedule_for_account default_config free_text_world instagram_account
      = (Done, [Fetch ''http://api:8000/schedules/a1'', Fetch ''http://api:8000/libraries'',
                Fetch ''http://api:8000/libraries/lib-1/items'',
                Log (InvalidTime ''soon''), Log (InvalidTime ''later''), Log (InvalidTime ''noon'')])"
    using b unfolding three(2) urls by simp
  have all4: "concat (map post_times scenario_b_schedules) = [''08:00'', ''12:00'', ''18:00'', ''22:00'']"
    by (simp add: scenario_b_schedules_def)
  have three_posts: "POSTS_PER_DAY default_config = 3"
    by (simp add: default_config_def)
  from sch(1) sch' have urls_sch:
    "schedules_resp example_world ''http://api:8000/schedules/a1'' = scenario_b_schedules"
    "schedules_resp free_text_world ''http://api:8000/schedules/a1''
      = [\<lparr>sched_id = ''s1'', account_id = ''a1'',
          post_times = [''soon'', ''later'', ''noon'', ''dusk'']\<rparr>]"
    unfolding urls by simp_all
  from cycle_a have full: "schedule_for_account default_config example_world instagram_account
      = (Done,
         [Fetch ''http://api:8000/schedules/a1'', Fetch ''http://api:8000/libraries'',
          Fetch ''http://api:8000/libraries/lib-1/items'']
         @ snd (Done :: outcome,
        [Log (Sleeping 82800000000 ''a1''), Sleep 82800000000,
         Fetch ''http://api:8000/captions/i1'',
         VariantPost ''http://variant-api:8000/variant''
           [(''file_url'', JStr ''https://cdn.example/master1.mp4''),
            (''platform'', JStr ''instagram'')],
         Log (VariantFailed ''a1''),
         Log (Sleeping 10800000000 ''a1''), Sleep 10800000000,
         Fetch ''http://api:8000/captions/i1'',
         VariantPost ''http://variant-api:8000/variant''
           [(''file_url'', JStr ''https://cdn.example/master1.mp4''),
            (''platform'', JStr ''instagram'')],
         PublishPost ''http://ig-publisher:8000/publish''
           [(''ig_user_id'', JStr ''1789''), (''video_url'', JStr ''/static/v1.mp4''),
            (''caption'', JStr []), (''access_token'', JStr ''tok-1'')],
         Log (Published ''a1'' 200 ''ok''),
         Log (Sleeping 32400000000 ''a1''), Sleep 32400000000,
         Fetch ''http://api:8000/captions/i1'',
         VariantPost ''http://variant-api:8000/variant''
           [(''file_url'', JStr ''https://cdn.example/master1.mp4''),
            (''platform'', JStr ''instagram'')],
         PublishPost ''http://ig-publisher:8000/publish''
           [(''ig_user_id'', JStr ''1789''), (''video_url'', JStr ''/static/v1.mp4''),
            (''caption'', JStr []), (''access_token'', JStr ''tok-1'')],
         Log (Published ''a1'' 200 ''ok'')]))"
    unfolding loop .
  show ?thesis
    unfolding full cycle_b urls_sch three(1) all4 three_posts
    using tok(1) unparsable by simp
qed

text \<open>
  The claim as stated fails for a negative setting: with \<open>POSTS_PER_DAY = -1\<close> and the
  four times of scenario B the slice \<open>[:-1]\<close> keeps three entries, where the first
  \<open>POSTS_PER_DAY\<close> entries would be none.
\<close>

theorem negative_posts_per_day_keeps_entries:
  "POSTS_PER_DAY (default_config\<lparr>POSTS_PER_DAY := - 1\<rparr>) = - 1 \<and>
   effective_times (default_config\<lparr>POSTS_PER_DAY := - 1\<rparr>) scenario_b_schedules
     = [''08:00'', ''12:00'', ''18:00''] \<and>
   take (nat (POSTS_PER_DAY (default_config\<lparr>POSTS_PER_DAY := - 1\<rparr>)))
       (concat (map post_times scenario_b_schedules)) = [] \<and>
   effective_times (default_config\<lparr>POSTS_PER_DAY := - 1\<rparr>) scenario_b_schedules
     \<noteq> take (nat (POSTS_PER_DAY (default_config\<lparr>POSTS_PER_DAY := - 1\<rparr>)))
         (concat (map post_times scenario_b_schedules))"
  by (simp add: effective_times_def slice_to_def flatten_times_def scenario_b_schedules_def)

section \<open>Properties of the variant service\<close>

text \<open>
  Inside one interpreter, two requests with the same non-empty seed are given the same
  profile, whatever their platforms, file URLs and the fresh uuids of the two calls.
\<close>

lemma same_interpreter_same_profile:
  "req_seed r1 = Some s \<Longrightarrow> req_seed r2 = Some s \<Longrightarrow> s \<noteq> [] \<Longrightarrow>
   create_variant_profile hash r1 u1 = create_variant_profile hash r2 u2 \<and>
   create_variant_profile hash r1 u1 = nat (hash s mod 5) \<and>
   create_variant_profile hash r1 u1 < length spices \<and>
   create_variant_cmd hash r1 u1 t1 ! 5 = create_variant_cmd hash r2 u2 t2 ! 5"
  by (simp add: create_variant_profile_def create_variant_cmd_def run_ffmpeg_cmd_def
      effective_seed_def spice_index_def spices_def)

text \<open>
  An explicit seed that is the empty string is replaced by the fresh uuid of the call,
  as an omitted one is.
\<close>

lemma empty_seed_uses_fresh_uuid:
  "create_variant_profile hash (r\<lparr>req_seed := Some []\<rparr>) fresh = spice_index hash (Some fresh)"
  "create_variant_profile hash (r\<lparr>req_seed := None\<rparr>) fresh = spice_index hash (Some fresh)"
  by (simp_all add: create_variant_profile_def effective_seed_def)

text \<open>
  Claim C8 fails on the code. The profile index is \<open>hash(seed) % 5\<close> for the built-in
  \<open>hash\<close> of the interpreter that serves the request, and that function is salted anew
  for every process: two requests with the same seed and platform, served by two
  processes whose hashes of the seed differ modulo 5, are given different profiles. The
  index is a function of the seed and the process, not of the seed.
\<close>

theorem profile_depends_on_interpreter_hash:
  "req_seed r1 = Some s \<Longrightarrow> req_seed r2 = Some s \<Longrightarrow> req_platform r1 = req_platform r2 \<Longrightarrow>
   s \<noteq> [] \<Longrightarrow> hash1 s mod 5 \<noteq> hash2 s mod 5 \<Longrightarrow>
   create_variant_profile hash1 r1 u1 = nat (hash1 s mod 5) \<and>
   create_variant_profile hash2 r2 u2 = nat (hash2 s mod 5) \<and>
   create_variant_profile hash1 r1 u1 \<noteq> create_variant_profile hash2 r2 u2"
  by (simp add: create_variant_profile_def effective_seed_def spice_index_def spices_def
      nat_eq_iff)

theorem two_interpreters_example:
  "req_seed seeded_request = Some ''spring'' \<and> ''spring'' \<noteq> [] \<and>
   length_hash ''spring'' mod 5 = 3 \<and> int (length ''spring'') mod 5 = 1 \<and>
   create_variant_profile length_hash seeded_request ''u1'' = 3 \<and>
   create_variant_profile (\<lambda>s. int (length s)) seeded_request ''u2'' = 1 \<and>
   create_variant_profile length_hash seeded_request ''u1''
     \<noteq> create_variant_profile (\<lambda>s. int (length s)) seeded_request ''u2'' \<and>
   create_variant_cmd length_hash seeded_request ''u1'' ''t1'' ! 5
     = vf @ '',hue=h=2:s=1'' \<and>
   create_variant_cmd (\<lambda>s. int (length s)) seeded_request ''u2'' ''t1'' ! 5
     = vf @ '',unsharp=5:5:0.5''"
  using profile_depends_on_interpreter_hash [of seeded_request "''spring''" seeded_request
      length_hash "\<lambda>s. int (length s)" "''u1''" "''u2''"]
  by (simp add: seeded_request_def length_hash_def create_variant_profile_def
      create_variant_cmd_def run_ffmpeg_cmd_def vf_full_def effective_seed_def
      spice_index_def spices_def)

section \<open>Properties of the inventory service\<close>

text \<open>
  Claim C10. The body \<open>create_account\<close> returns does not depend on the access token of
  the request nor on the state: it has the keys id, network, external_user_id and handle
  and no key \<open>access_token\<close>. The record appended to \<open>accounts\<close> is that body followed by
  the token, \<open>list_accounts\<close> returns it, and it is written to \<open>accounts.json\<close>.
\<close>

theorem create_account_hides_token:
  "fst (create_account new_id (acc\<lparr>ac_access_token := t1\<rparr>) st1)
     = fst (create_account new_id (acc\<lparr>ac_access_token := t2\<rparr>) st2) \<and>
   map fst (fst (create_account new_id acc st))
     = [''id'', ''network'', ''external_user_id'', ''handle''] \<and>
   map_of (fst (create_account new_id acc st)) ''access_token'' = None \<and>
   list_accounts (snd (create_account new_id acc st))
     = list_accounts st @
       [fst (create_account new_id acc st) @ [(''access_token'', jopt (ac_access_token acc))]] \<and>
   disk (snd (create_account new_id acc st)) ''accounts.json''
     = Some (list_accounts (snd (create_account new_id acc st)))"
  by (simp add: create_account_def list_accounts_def save_def Let_def)

theorem create_account_hides_token_example:
  "fst (create_account ''id-7'' new_account empty_api)
     = fst (create_account ''id-7'' (new_account\<lparr>ac_access_token := Some ''secret-2''\<rparr>) empty_api) \<and>
   list_accounts (snd (create_account ''id-7'' new_account empty_api))
     = [[(''id'', JStr ''id-7''), (''network'', JStr ''youtube''),
         (''external_user_id'', JStr ''UC42''), (''handle'', JStr ''@studio''),
         (''access_token'', JStr ''secret-1'')]]"
  using create_account_hides_token [where new_id = "''id-7''" and acc = new_account
      and ?t1.0 = "Some ''secret-1''" and ?t2.0 = "Some ''secret-2''"
      and ?st1.0 = empty_api and ?st2.0 = empty_api and st = empty_api]
  by (simp add: new_account_def empty_api_def create_account_def list_accounts_def save_def)

end
